theory Spec2Isabelle
  imports Complex_Main
begin

section \<open>Python values used by the matching engine\<close>

text \<open>
  A case profile is a Python dictionary (\<^verbatim>\<open>Dict[str, Any]\<close>). For each key the
  scorers read, the dictionary either has no entry, or holds \<^verbatim>\<open>None\<close>, or holds a
  value: \<^verbatim>\<open>d.get(k, default)\<close> gives the default only in the first case.
\<close>

datatype 'a field = Absent | Null | Val 'a

definition pyget :: "'a field \<Rightarrow> 'a \<Rightarrow> 'a option" where
  "pyget f dflt = (case f of Absent \<Rightarrow> Some dflt | Null \<Rightarrow> None | Val v \<Rightarrow> Some v)"

text \<open>
  Exceptions the scorers and the endpoints can raise: Python's own, SQLAlchemy's
  (\<^verbatim>\<open>scalar_one\<close>, \<^verbatim>\<open>scalar_one_or_none\<close>, a key constraint violated, a value
  a column does not admit) and FastAPI's \<^verbatim>\<open>HTTPException(status_code, detail)\<close>.
\<close>

datatype py_error =
    AttributeError
  | TypeError
  | ZeroDivisionError
  | MultipleResultsFound
  | NoResultFound
  | IntegrityError
  | DataError
  | HTTPException nat string

text \<open>Truthiness of an optional string and of an optional list; \<^verbatim>\<open>x or []\<close>.\<close>

definition truthy_str :: "string option \<Rightarrow> bool" where
  "truthy_str s = (case s of None \<Rightarrow> False | Some v \<Rightarrow> v \<noteq> [])"

definition or_empty :: "'a list option \<Rightarrow> 'a list" where
  "or_empty xs = (case xs of None \<Rightarrow> [] | Some v \<Rightarrow> v)"

definition or_zero :: "int option \<Rightarrow> int" where
  "or_zero n = (case n of None \<Rightarrow> 0 | Some v \<Rightarrow> v)"

text \<open>
  \<^verbatim>\<open>x in xs\<close> for a value that may be \<^verbatim>\<open>None\<close> and a list of strings:
  \<^verbatim>\<open>None\<close> is never a member.
\<close>

definition py_mem :: "string option \<Rightarrow> string list \<Rightarrow> bool" where
  "py_mem x xs = (case x of None \<Rightarrow> False | Some v \<Rightarrow> v \<in> set xs)"

text \<open>
  \<^verbatim>\<open>str.lower()\<close> on the ASCII letters (a \<open>char\<close> is a byte, and the bytes of a
  character beyond ASCII are left as they are), and the substring test \<^verbatim>\<open>a in b\<close>.
\<close>

definition lower_char :: "char \<Rightarrow> char" where
  "lower_char c =
     (let n = (of_char c :: nat) in if 65 \<le> n \<and> n \<le> 90 then char_of (n + 32) else c)"

definition lower :: "string \<Rightarrow> string" where
  "lower s = map lower_char s"

fun starts_with :: "string \<Rightarrow> string \<Rightarrow> bool" where
  "starts_with [] b = True"
| "starts_with (x # a) [] = False"
| "starts_with (x # a) (y # b) = (x = y \<and> starts_with a b)"

fun py_in :: "string \<Rightarrow> string \<Rightarrow> bool" where
  "py_in a [] = (a = [])"
| "py_in a (y # b) = (starts_with a (y # b) \<or> py_in a b)"

text \<open>\<^verbatim>\<open>len(s.split(','))\<close>: one more than the number of commas.\<close>

definition split_count :: "string \<Rightarrow> nat" where
  "split_count s = Suc (length (filter (\<lambda>c. c = CHR '','') s))"

text \<open>\<^verbatim>\<open>len(set(a) & set(b))\<close>.\<close>

definition common_count :: "string list \<Rightarrow> string list \<Rightarrow> nat" where
  "common_count a b = length (remdups (filter (\<lambda>x. x \<in> set b) a))"

section \<open>The case profile and the match reasons\<close>

record case_profile =
  cp_matter_type :: "string field"
  cp_sub_category :: "string field"
  cp_state :: "string field"
  cp_district :: "string field"
  cp_court_level :: "string field"
  cp_complexity :: "string field"
  cp_estimated_complexity :: "string field"
  cp_urgency :: "string field"
  cp_urgency_level :: "string field"
  cp_preferred_languages :: "string list field"
  cp_budget_category :: "string field"
  cp_requires_senior_counsel :: "bool field"
  cp_specific_expertise_needed :: "string list field"

text \<open>
  A match reason is the string one template of the scorers builds; the constructor names
  the template and carries the values it interpolates:
  \<^item> \<open>NotAvailableIn s\<close>: "Not available in s";
  \<^item> \<open>NotAccepting\<close>: "Currently not accepting new cases";
  \<^item> \<open>SpecializesIn m\<close>: "Specializes in m matters";
  \<^item> \<open>ExpertIn e\<close>: "Expert in e";
  \<^item> \<open>HandlesRegularly c\<close>: "Handles c cases regularly";
  \<^item> \<open>HasExperienceWith e\<close>: "Has experience with e";
  \<^item> \<open>PracticesIn s\<close>: "Practices in s";
  \<^item> \<open>FamiliarWith d\<close>: "Familiar with d courts";
  \<^item> \<open>HomeCourtIs h\<close>: "Home court is h";
  \<^item> \<open>YearsOfPractice n\<close>: "n years of practice";
  \<^item> \<open>SeniorCounsel\<close>: "Senior counsel experience" (the bot only);
  \<^item> \<open>ReportedJudgments n\<close>: "n reported judgments" (the bot only);
  \<^item> \<open>HighCourtExperience\<close>: "Experience with High Court matters" (the backend only);
  \<^item> \<open>ExcellentAvailability\<close>, \<open>GoodAvailability\<close>, \<open>ModerateAvailability\<close>;
  \<^item> \<open>FeeMatches f\<close>: "Fee structure matches budget (f)";
  \<^item> \<open>FeeCompatible f\<close>: "Fee structure compatible (f)";
  \<^item> \<open>Speaks ls\<close>: "Speaks " and the matching languages joined by ", " (the set of
    them: Python joins them in the iteration order of a set of strings);
  \<^item> \<open>HighlyRated r n\<close>: "Highly rated (r/5, n reviews)";
  \<^item> \<open>WellRated r\<close>: "Well rated (r/5)";
  \<^item> \<open>SelectedByClient\<close>: "Selected by client" (the default of \<open>select_advocate\<close>).
\<close>

datatype reason =
    NotAvailableIn string
  | NotAccepting
  | SpecializesIn string
  | ExpertIn string
  | HandlesRegularly string
  | HasExperienceWith string
  | PracticesIn string
  | FamiliarWith string
  | HomeCourtIs string
  | YearsOfPractice int
  | SeniorCounsel
  | ReportedJudgments int
  | HighCourtExperience
  | ExcellentAvailability
  | GoodAvailability
  | ModerateAvailability
  | FeeMatches string
  | FeeCompatible string
  | Speaks "string set"
  | HighlyRated rat "int option"
  | WellRated rat
  | SelectedByClient

text \<open>
  The extraction of the case parameters, shared by the two scorers where they agree.
  The backend reads \<^verbatim>\<open>complexity\<close> and \<^verbatim>\<open>urgency\<close> first and falls back on
  the bot's keys.
\<close>

definition complexity_requirements :: "string option \<Rightarrow> int" where
  "complexity_requirements c =
     (if c = Some ''simple'' then 3
      else if c = Some ''moderate'' then 5
      else if c = Some ''complex'' then 10
      else if c = Some ''highly_complex'' then 15
      else 5)"

definition fee_mapping :: "string option \<Rightarrow> string list" where
  "fee_mapping b =
     (if b = Some ''pro_bono'' then [''affordable'', ''pro_bono'']
      else if b = Some ''affordable'' then [''affordable'', ''standard'']
      else if b = Some ''standard'' then [''standard'', ''affordable'', ''premium'']
      else if b = Some ''premium'' then [''premium'', ''standard'']
      else [''standard''])"

text \<open>
  The first requested expertise that occurs, in lower case, inside one of the advocate's
  sub-specializations (the \<^verbatim>\<open>for ... if any(...) ... break\<close> loops).
\<close>

definition first_expertise :: "string list \<Rightarrow> string list \<Rightarrow> string option" where
  "first_expertise expertise subs =
     find (\<lambda>e. list_ex (\<lambda>sub. py_in (lower e) (lower sub)) subs) expertise"

definition sub_category_hit :: "string \<Rightarrow> string list \<Rightarrow> bool" where
  "sub_category_hit sc subs =
     list_ex (\<lambda>sub. py_in (lower sc) (lower sub) \<or> py_in (lower sub) (lower sc)) subs"

text \<open>
  Each clause of a scorer adds points to \<^verbatim>\<open>score\<close> and appends to
  \<^verbatim>\<open>reasons\<close>; a clause is modelled by its contribution (points, reasons), and
  \<open>parts\<close> accumulates the contributions in the order of the source. Scores are Python
  floats; every value a scorer adds is an integer or a multiple of 0.5, so the sums are
  exact and are modelled as rationals. The workload ratio is the quotient of two machine
  integers compared with 0.5, 0.7 and 0.9: for loads in the 32-bit range of the columns
  the float comparison and the rational one agree (a quotient that differs from 7/10
  differs from it by at least 1/(10 * capacity), far more than the rounding error).
\<close>

type_synonym part = "rat \<times> reason list"

definition no_part :: part where
  "no_part = (0, [])"

definition parts :: "part list \<Rightarrow> part" where
  "parts ps = (sum_list (map fst ps), concat (map snd ps))"

definition final_score :: "part \<Rightarrow> part" where
  "final_score p = (min 100 (fst p), snd p)"

text \<open>The clauses the two scorers share word for word.\<close>

definition experience_part :: "int \<Rightarrow> string option \<Rightarrow> part" where
  "experience_part years complexity =
     (let min_years = complexity_requirements complexity in
      if years \<ge> min_years
      then (min 15 (8 + of_int (years - min_years) * (1 / 2)), [YearsOfPractice years])
      else (5, []))"

definition availability_part :: "rat \<Rightarrow> string option \<Rightarrow> part" where
  "availability_part workload_ratio urgency =
     (if workload_ratio < 1 / 2 then (10, [ExcellentAvailability])
      else if workload_ratio < 7 / 10 then (7, [GoodAvailability])
      else if workload_ratio < 9 / 10 then (4, [ModerateAvailability])
      else (2 - (if urgency = Some ''urgent'' then 5 else 0), []))"

definition fee_part :: "string \<Rightarrow> string option \<Rightarrow> part" where
  "fee_part advocate_fee budget =
     (if advocate_fee \<in> set (fee_mapping budget)
      then (if Some advocate_fee = budget then (10, [FeeMatches advocate_fee])
            else (6, [FeeCompatible advocate_fee]))
      else (2, []))"

definition language_part :: "string list \<Rightarrow> string list \<Rightarrow> part" where
  "language_part languages advocate_languages =
     (let n = common_count languages advocate_languages in
      if n > 0
      then (min 5 (of_nat n * 2), [Speaks (set languages \<inter> set advocate_languages)])
      else no_part)"

definition rating_part :: "rat \<Rightarrow> int option \<Rightarrow> part" where
  "rating_part rating reviews =
     (if rating \<ge> 9 / 2 then (5, [HighlyRated rating reviews])
      else if rating \<ge> 4 then (3, [WellRated rating])
      else no_part)"

definition district_part :: "bool \<Rightarrow> string option \<Rightarrow> part" where
  "district_part hit district =
     (case district of
        None \<Rightarrow> no_part
      | Some d \<Rightarrow> if hit then (10, [FamiliarWith d]) else no_part)"

definition home_court_part :: "string \<Rightarrow> string \<Rightarrow> part" where
  "home_court_part st home_court =
     (if py_in (lower st) (lower home_court) then (5, [HomeCourtIs home_court]) else no_part)"

definition expertise_part :: "rat \<Rightarrow> (string \<Rightarrow> reason) \<Rightarrow> string list \<Rightarrow> string list \<Rightarrow> part" where
  "expertise_part pts why expertise subs =
     (case first_expertise expertise subs of
        None \<Rightarrow> no_part
      | Some e \<Rightarrow> (pts, [why e]))"

definition sub_category_part :: "string option \<Rightarrow> string list \<Rightarrow> part" where
  "sub_category_part sub_category subs =
     (case sub_category of
        None \<Rightarrow> no_part
      | Some sc \<Rightarrow>
          if sc \<noteq> [] \<and> sub_category_hit sc subs then (5, [HandlesRegularly sc])
          else no_part)"

section \<open>The backend scorer: \<^verbatim>\<open>MatchingService._calculate_match_score\<close>\<close>

type_synonym uuid = nat

datatype fee_category = PREMIUM | STANDARD | AFFORDABLE | PRO_BONO

fun fee_value :: "fee_category \<Rightarrow> string" where
  "fee_value PREMIUM = ''premium''"
| "fee_value STANDARD = ''standard''"
| "fee_value AFFORDABLE = ''affordable''"
| "fee_value PRO_BONO = ''pro_bono''"

text \<open>
  The row of \<^verbatim>\<open>advocate_profiles\<close>: every column the engine and the lifecycle
  read. All of them are nullable in the model of the database.
\<close>

record advocate_profile =
  ap_id :: uuid
  ap_user_id :: uuid
  ap_states :: "string list option"
  ap_districts :: "string list option"
  ap_home_court :: "string option"
  ap_primary_specializations :: "string list option"
  ap_sub_specializations :: "string list option"
  ap_experience_years :: "int option"
  ap_landmark_cases :: "string option"
  ap_success_rate :: "rat option"
  ap_current_case_load :: "int option"
  ap_max_case_capacity :: "int option"
  ap_fee_category :: "fee_category option"
  ap_languages :: "string list option"
  ap_rating :: "rat option"
  ap_review_count :: "int option"
  ap_is_available :: "bool option"

definition backend_complexity :: "case_profile \<Rightarrow> string option" where
  "backend_complexity cp =
     (case cp_complexity cp of
        Absent \<Rightarrow> pyget (cp_estimated_complexity cp) ''moderate''
      | Null \<Rightarrow> None
      | Val v \<Rightarrow> Some v)"

definition backend_urgency :: "case_profile \<Rightarrow> string option" where
  "backend_urgency cp =
     (case cp_urgency cp of
        Absent \<Rightarrow> pyget (cp_urgency_level cp) ''normal''
      | Null \<Rightarrow> None
      | Val v \<Rightarrow> Some v)"

definition backend_specialization :: "advocate_profile \<Rightarrow> case_profile \<Rightarrow> part" where
  "backend_specialization profile cp =
     (let matter_type = pyget (cp_matter_type cp) [];
          sub_category = pyget (cp_sub_category cp) [];
          specific_expertise = or_empty (pyget (cp_specific_expertise_needed cp) []);
          subs = or_empty (ap_sub_specializations profile)
      in case matter_type of
           None \<Rightarrow> expertise_part 10 HasExperienceWith specific_expertise subs
         | Some m \<Rightarrow>
             if m \<noteq> [] \<and> m \<in> set (or_empty (ap_primary_specializations profile))
             then parts [(20, [SpecializesIn m]),
                         expertise_part 5 ExpertIn specific_expertise subs,
                         sub_category_part sub_category subs]
             else expertise_part 10 HasExperienceWith specific_expertise subs)"

definition backend_state_part :: "advocate_profile \<Rightarrow> string option \<Rightarrow> part" where
  "backend_state_part profile st =
     (case st of
        None \<Rightarrow> no_part
      | Some s \<Rightarrow> if s \<in> set (or_empty (ap_states profile)) then (10, [PracticesIn s]) else no_part)"

definition backend_home_court :: "advocate_profile \<Rightarrow> string option \<Rightarrow> string option \<Rightarrow> py_error + part" where
  "backend_home_court profile court_level st =
     (if court_level = Some ''high_court'' \<and> truthy_str (ap_home_court profile)
      then (case st of
              None \<Rightarrow> Inl AttributeError
            | Some s \<Rightarrow> Inr (home_court_part s (case ap_home_court profile of Some h \<Rightarrow> h | None \<Rightarrow> [])))
      else Inr no_part)"

definition backend_landmark :: "advocate_profile \<Rightarrow> string option \<Rightarrow> part" where
  "backend_landmark profile court_level =
     (case ap_landmark_cases profile of
        None \<Rightarrow> no_part
      | Some l \<Rightarrow>
          if court_level = Some ''high_court'' \<and> l \<noteq> [] \<and> split_count l > 5
          then (3, [HighCourtExperience])
          else no_part)"

definition backend_workload_ratio :: "advocate_profile \<Rightarrow> rat" where
  "backend_workload_ratio profile =
     (let max_capacity = (case ap_max_case_capacity profile of
                            None \<Rightarrow> 20
                          | Some m \<Rightarrow> if m = 0 then 20 else m);
          current_load = or_zero (ap_current_case_load profile)
      in if max_capacity > 0 then of_int current_load / of_int max_capacity else 0)"

definition backend_fee :: "advocate_profile \<Rightarrow> string" where
  "backend_fee profile =
     (case ap_fee_category profile of None \<Rightarrow> ''standard'' | Some f \<Rightarrow> fee_value f)"

definition backend_rating :: "advocate_profile \<Rightarrow> rat" where
  "backend_rating profile = (case ap_rating profile of None \<Rightarrow> 0 | Some r \<Rightarrow> r)"

definition backend_success :: "advocate_profile \<Rightarrow> part" where
  "backend_success profile =
     (case ap_success_rate profile of
        None \<Rightarrow> no_part
      | Some r \<Rightarrow>
          if r = 0 then no_part
          else if r \<ge> 80 then (3, [])
          else if r \<ge> 60 then (1, [])
          else no_part)"

text \<open>
  The hard filters come first, the geographic one before the availability one; past
  them every clause applies (\<open>backend_clauses\<close> is \<^verbatim>\<open>score\<close> and
  \<^verbatim>\<open>reasons\<close> before the final \<^verbatim>\<open>min(100.0, score)\<close>). The only statement that can raise is
  \<^verbatim>\<open>state.lower()\<close> in the home-court clause, when the profile holds
  \<^verbatim>\<open>None\<close> for the state.
\<close>

definition backend_clauses :: "advocate_profile \<Rightarrow> case_profile \<Rightarrow> part \<Rightarrow> part" where
  "backend_clauses profile cp home =
     (let st = pyget (cp_state cp) [];
          district = pyget (cp_district cp) [];
          court_level = pyget (cp_court_level cp) ''district'';
          languages = or_empty (pyget (cp_preferred_languages cp) [''Hindi'', ''English'']);
          budget = pyget (cp_budget_category cp) ''standard''
      in parts
           [backend_specialization profile cp,
            backend_state_part profile st,
            district_part (truthy_str district \<and> py_mem district (or_empty (ap_districts profile))) district,
            home,
            experience_part (or_zero (ap_experience_years profile)) (backend_complexity cp),
            backend_landmark profile court_level,
            availability_part (backend_workload_ratio profile) (backend_urgency cp),
            fee_part (backend_fee profile) budget,
            language_part languages (or_empty (ap_languages profile)),
            rating_part (backend_rating profile) (ap_review_count profile),
            backend_success profile])"

definition calculate_match_score :: "advocate_profile \<Rightarrow> case_profile \<Rightarrow> py_error + part" where
  "calculate_match_score profile cp =
     (let st = pyget (cp_state cp) [];
          court_level = pyget (cp_court_level cp) ''district'';
          advocate_states = or_empty (ap_states profile)
      in if truthy_str st \<and> advocate_states \<noteq> [] \<and> \<not> py_mem st advocate_states
         then Inr (0, [NotAvailableIn (case st of Some s \<Rightarrow> s | None \<Rightarrow> [])])
         else if ap_is_available profile \<noteq> Some True
         then Inr (0, [NotAccepting])
         else (case backend_home_court profile court_level st of
                 Inl e \<Rightarrow> Inl e
               | Inr home \<Rightarrow> Inr (final_score (backend_clauses profile cp home))))"

section \<open>The bot scorer: \<^verbatim>\<open>calculate_advocate_match_score\<close>\<close>

text \<open>The dataclass \<^verbatim>\<open>AdvocateProfile\<close> of the bot: no field is optional.\<close>

record bot_advocate =
  ba_advocate_id :: string
  ba_practicing_states :: "string list"
  ba_practicing_districts :: "string list"
  ba_home_court :: string
  ba_specializations :: "string list"
  ba_sub_specializations :: "string list"
  ba_years_of_practice :: int
  ba_landmark_cases :: int
  ba_success_rate_category :: string
  ba_current_case_load :: int
  ba_max_case_load :: int
  ba_available_for_new_cases :: bool
  ba_fee_category :: string
  ba_languages :: "string list"
  ba_rating :: rat
  ba_total_reviews :: int

definition bot_specialization :: "bot_advocate \<Rightarrow> case_profile \<Rightarrow> string list \<Rightarrow> part" where
  "bot_specialization advocate cp specific_expertise =
     (let matter_type = pyget (cp_matter_type cp) [];
          sub_category = pyget (cp_sub_category cp) [];
          subs = ba_sub_specializations advocate
      in case matter_type of
           None \<Rightarrow> expertise_part 10 HasExperienceWith specific_expertise subs
         | Some m \<Rightarrow>
             if m \<in> set (ba_specializations advocate)
             then parts [(20, [SpecializesIn m]),
                         expertise_part 5 ExpertIn specific_expertise subs,
                         sub_category_part sub_category subs]
             else expertise_part 10 HasExperienceWith specific_expertise subs)"

definition bot_senior :: "bot_advocate \<Rightarrow> case_profile \<Rightarrow> part" where
  "bot_senior advocate cp =
     (if pyget (cp_requires_senior_counsel cp) False = Some True
         \<and> ba_years_of_practice advocate \<ge> 15
      then (5, [SeniorCounsel]) else no_part)"

definition bot_landmark :: "bot_advocate \<Rightarrow> string option \<Rightarrow> part" where
  "bot_landmark advocate court_level =
     (if court_level = Some ''high_court'' \<and> ba_landmark_cases advocate > 5
      then (3, [ReportedJudgments (ba_landmark_cases advocate)]) else no_part)"

definition bot_success :: "bot_advocate \<Rightarrow> part" where
  "bot_success advocate =
     (if ba_success_rate_category advocate = ''excellent'' then (3, [])
      else if ba_success_rate_category advocate = ''good'' then (1, [])
      else no_part)"

text \<open>
  The statements that can raise, in the order of the source: the concatenation
  \<^verbatim>\<open>"Not available in " + state\<close> when the state is \<^verbatim>\<open>None\<close> (it is then
  in no list of strings), the loops over \<^verbatim>\<open>specific_expertise\<close> when it is
  \<^verbatim>\<open>None\<close>, the division by \<^verbatim>\<open>max_case_load\<close>, and
  \<^verbatim>\<open>set(languages)\<close> when it is \<^verbatim>\<open>None\<close>.
\<close>

definition bot_clauses :: "bot_advocate \<Rightarrow> case_profile \<Rightarrow> string \<Rightarrow> string list \<Rightarrow> string list \<Rightarrow> part" where
  "bot_clauses advocate cp st specific_expertise languages =
     (let district = pyget (cp_district cp) [];
          court_level = pyget (cp_court_level cp) ''district'';
          complexity = pyget (cp_estimated_complexity cp) ''moderate'';
          urgency = pyget (cp_urgency_level cp) ''normal'';
          budget = pyget (cp_budget_category cp) ''standard''
      in parts
           [bot_specialization advocate cp specific_expertise,
            (10, [PracticesIn st]),
            district_part (py_mem district (ba_practicing_districts advocate)) district,
            (if court_level = Some ''high_court''
             then home_court_part st (ba_home_court advocate) else no_part),
            experience_part (ba_years_of_practice advocate) complexity,
            bot_senior advocate cp,
            bot_landmark advocate court_level,
            availability_part
              (of_int (ba_current_case_load advocate) / of_int (ba_max_case_load advocate))
              urgency,
            fee_part (ba_fee_category advocate) budget,
            language_part languages (ba_languages advocate),
            rating_part (ba_rating advocate) (Some (ba_total_reviews advocate)),
            bot_success advocate])"

definition calculate_advocate_match_score :: "bot_advocate \<Rightarrow> case_profile \<Rightarrow> py_error + part" where
  "calculate_advocate_match_score advocate cp =
     (case pyget (cp_state cp) [] of
        None \<Rightarrow> Inl TypeError
      | Some st \<Rightarrow>
          if st \<notin> set (ba_practicing_states advocate) then Inr (0, [NotAvailableIn st])
          else if \<not> ba_available_for_new_cases advocate then Inr (0, [NotAccepting])
          else (case pyget (cp_specific_expertise_needed cp) [] of
                  None \<Rightarrow> Inl TypeError
                | Some specific_expertise \<Rightarrow>
                    if ba_max_case_load advocate = 0 then Inl ZeroDivisionError
                    else (case pyget (cp_preferred_languages cp) [''Hindi'', ''English''] of
                            None \<Rightarrow> Inl TypeError
                          | Some languages \<Rightarrow>
                              Inr (final_score
                                (bot_clauses advocate cp st specific_expertise languages)))))"

section \<open>Scenario A\<close>

text \<open>
  The case profile with no key at all, and the inputs of Scenario A: the advocate is
  given by the listed columns (every other column is \<^verbatim>\<open>None\<close>) and by its list of
  practicing districts, which the scenario leaves open.
\<close>

definition no_keys :: case_profile where
  "no_keys =
     \<lparr>cp_matter_type = Absent, cp_sub_category = Absent, cp_state = Absent,
      cp_district = Absent, cp_court_level = Absent, cp_complexity = Absent,
      cp_estimated_complexity = Absent, cp_urgency = Absent, cp_urgency_level = Absent,
      cp_preferred_languages = Absent, cp_budget_category = Absent,
      cp_requires_senior_counsel = Absent, cp_specific_expertise_needed = Absent\<rparr>"

definition scenario_case :: case_profile where
  "scenario_case =
     no_keys\<lparr>cp_matter_type := Val ''civil'', cp_state := Val ''Delhi'',
       cp_district := Val ''South Delhi'', cp_court_level := Val ''district'',
       cp_complexity := Val ''moderate'', cp_budget_category := Val ''premium''\<rparr>"

definition scenario_advocate :: "string list option \<Rightarrow> advocate_profile" where
  "scenario_advocate ds =
     \<lparr>ap_id = 1, ap_user_id = 1, ap_states = Some [''Delhi''], ap_districts = ds,
      ap_home_court = None, ap_primary_specializations = Some [''civil''],
      ap_sub_specializations = None, ap_experience_years = Some 19,
      ap_landmark_cases = None, ap_success_rate = None, ap_current_case_load = Some 28,
      ap_max_case_capacity = Some 40, ap_fee_category = Some PREMIUM, ap_languages = None,
      ap_rating = Some (24 / 5), ap_review_count = None, ap_is_available = Some True\<rparr>"

text \<open>The same advocate as a record of the bot's registry.\<close>

definition scenario_bot_advocate :: "string list \<Rightarrow> bot_advocate" where
  "scenario_bot_advocate ds =
     \<lparr>ba_advocate_id = ''ADV001'', ba_practicing_states = [''Delhi''],
      ba_practicing_districts = ds, ba_home_court = [], ba_specializations = [''civil''],
      ba_sub_specializations = [], ba_years_of_practice = 19, ba_landmark_cases = 0,
      ba_success_rate_category = [], ba_current_case_load = 28, ba_max_case_load = 40,
      ba_available_for_new_cases = True, ba_fee_category = ''premium'', ba_languages = [],
      ba_rating = 24 / 5, ba_total_reviews = 0\<rparr>"

text \<open>An advocate of another state who accepts no new cases.\<close>

definition elsewhere_unavailable :: advocate_profile where
  "elsewhere_unavailable =
     (scenario_advocate None)\<lparr>ap_states := Some [''Maharashtra''], ap_is_available := Some False\<rparr>"

section \<open>The database\<close>

text \<open>
  A table is the list of its rows, in the order the database returns them. A query is a
  \<open>filter\<close> over the table; \<^verbatim>\<open>scalar_one_or_none\<close> and \<^verbatim>\<open>scalar_one\<close>
  raise when the query has more than one row, \<^verbatim>\<open>first\<close> takes the first row.
  An identifier (a UUID) is the number its 32 hexadecimal digits denote; times are
  opaque, and one call of an endpoint reads the clock as one value \<open>now\<close>.
\<close>

type_synonym time = nat

definition scalar_one_or_none :: "'a list \<Rightarrow> py_error + 'a option" where
  "scalar_one_or_none rows =
     (case rows of
        [] \<Rightarrow> Inr None
      | [x] \<Rightarrow> Inr (Some x)
      | _ \<Rightarrow> Inl MultipleResultsFound)"

definition scalar_one :: "'a list \<Rightarrow> py_error + 'a" where
  "scalar_one rows =
     (case rows of
        [] \<Rightarrow> Inl NoResultFound
      | [x] \<Rightarrow> Inr x
      | _ \<Rightarrow> Inl MultipleResultsFound)"

definition first_row :: "'a list \<Rightarrow> 'a option" where
  "first_row rows = (case rows of [] \<Rightarrow> None | x # _ \<Rightarrow> Some x)"

datatype case_status =
    AI_CONVERSATION
  | PENDING_ADVOCATE
  | ADVOCATE_ASSIGNED
  | ADVOCATE_REJECTED
  | IN_PROGRESS
  | COMPLETED
  | CLOSED

datatype advocate_response = Response_PENDING | Response_ACCEPTED | Response_REJECTED

datatype request_status = PENDING | ACCEPTED | REJECTED

datatype conversation_phase =
    AI_INTERVIEW
  | AI_COUNSELLING
  | AI_DRAFTING
  | ADVOCATE_REVIEW
  | ADVOCATE_ACTIVE

datatype sender_type = Sender_CLIENT | Sender_AI | Sender_ADVOCATE

datatype message_type = Message_TEXT | Message_FILE | Message_DOCUMENT | Message_SYSTEM

text \<open>
  The profile the assistant extracts from a conversation is what \<^verbatim>\<open>json.loads\<close>
  returns for a block of its answer: any JSON value. An object is the list of its items;
  the keys of an object are distinct. \<^verbatim>\<open>truthy\<close> is the truth value Python gives the
  value, \<^verbatim>\<open>dict_get\<close> is \<^verbatim>\<open>d.get(key)\<close>, \<^verbatim>\<open>None\<close> for a missing key.
\<close>

datatype json =
    JNull
  | JBool bool
  | JNumber rat
  | JString string
  | JArray "json list"
  | JObject "(string \<times> json) list"

fun truthy :: "json \<Rightarrow> bool" where
  "truthy JNull = False"
| "truthy (JBool b) = b"
| "truthy (JNumber n) = (n \<noteq> 0)"
| "truthy (JString s) = (s \<noteq> [])"
| "truthy (JArray xs) = (xs \<noteq> [])"
| "truthy (JObject items) = (items \<noteq> [])"

definition dict_get :: "(string \<times> json) list \<Rightarrow> string \<Rightarrow> json" where
  "dict_get items key = (case map_of items key of None \<Rightarrow> JNull | Some v \<Rightarrow> v)"

record user_row =
  u_id :: uuid
  u_full_name :: string
  u_is_active :: "bool option"

record case_row =
  c_id :: uuid
  c_client_id :: uuid
  c_advocate_id :: "uuid option"
  c_conversation_id :: "uuid option"
  c_matter_type :: "string option"
  c_sub_category :: "string option"
  c_state :: "string option"
  c_district :: "string option"
  c_court_level :: "string option"
  c_complexity :: "string option"
  c_urgency :: "string option"
  c_amount_in_dispute :: "rat option"
  c_case_summary :: "string option"
  c_extracted_facts :: "json option"
  c_status :: case_status
  c_selected_advocate_id :: "uuid option"
  c_advocate_response :: "advocate_response option"
  c_rejection_reason :: "string option"
  c_updated_at :: time

text \<open>
  \<open>r_match_explanation\<close> is the list of reasons whose strings the endpoint joins with
  \<^verbatim>\<open>"; "\<close>.
\<close>

record request_row =
  r_id :: uuid
  r_case_id :: uuid
  r_advocate_id :: uuid
  r_client_id :: uuid
  r_match_score :: "int option"
  r_match_explanation :: "reason list"
  r_status :: request_status
  r_response_at :: "time option"
  r_rejection_reason :: "string option"

record conversation_row =
  cv_id :: uuid
  cv_case_id :: "uuid option"
  cv_client_id :: uuid
  cv_phase :: conversation_phase
  cv_ai_container_id :: "string option"
  cv_updated_at :: time

record message_row =
  m_conversation_id :: uuid
  m_sender_type :: sender_type
  m_sender_id :: "uuid option"
  m_content :: string
  m_message_type :: message_type

text \<open>A notification: the recipient, the type, and the case its payload names.\<close>

record notification_row =
  n_user_id :: uuid
  n_type :: string
  n_case_id :: uuid

record db =
  users :: "user_row list"
  advocate_profiles :: "advocate_profile list"
  cases :: "case_row list"
  case_requests :: "request_row list"
  conversations :: "conversation_row list"
  messages :: "message_row list"
  notifications :: "notification_row list"

section \<open>Recommendations: \<^verbatim>\<open>MatchingService.get_recommendations\<close>\<close>

text \<open>
  One entry of the list \<^verbatim>\<open>get_recommendations\<close> returns: of the dictionary it
  builds, the keys its callers and the ranking read.
\<close>

record recommendation =
  rec_advocate_id :: uuid
  rec_profile_id :: uuid
  rec_name :: string
  match_score :: rat
  match_reasons :: "reason list"
  rec_rating :: rat
  rec_review_count :: "int option"

text \<open>
  \<^verbatim>\<open>round(score, 1)\<close> rounds to the nearest tenth, a tie to the even neighbour; on the
  scores of the scorers, multiples of 0.5, it changes nothing. \<^verbatim>\<open>int(x)\<close> truncates
  towards zero.
\<close>

definition round_half_even :: "rat \<Rightarrow> int" where
  "round_half_even q =
     (let f = \<lfloor>q\<rfloor>; d = q - of_int f
      in if d < 1 / 2 then f
         else if d > 1 / 2 then f + 1
         else if even f then f else f + 1)"

definition round1 :: "rat \<Rightarrow> rat" where
  "round1 x = of_int (round_half_even (x * 10)) / 10"

definition py_int :: "rat \<Rightarrow> int" where
  "py_int x = (if x \<ge> 0 then \<lfloor>x\<rfloor> else \<lceil>x\<rceil>)"

text \<open>\<^verbatim>\<open>xs[:limit]\<close>: a negative limit counts from the end.\<close>

definition py_take :: "int \<Rightarrow> 'a list \<Rightarrow> 'a list" where
  "py_take limit xs =
     (if limit \<ge> 0 then take (nat limit) xs
      else take (length xs - nat (- limit)) xs)"

text \<open>
  The query: profiles joined with their users, available and active (a \<^verbatim>\<open>NULL\<close> flag
  does not satisfy \<^verbatim>\<open>== True\<close>).
\<close>

definition joined :: "db \<Rightarrow> (advocate_profile \<times> user_row) list" where
  "joined s =
     concat (map (\<lambda>p. map (\<lambda>u. (p, u)) (filter (\<lambda>u. u_id u = ap_user_id p) (users s)))
                 (advocate_profiles s))"

definition available_advocates :: "db \<Rightarrow> (advocate_profile \<times> user_row) list" where
  "available_advocates s =
     filter (\<lambda>(p, u). ap_is_available p = Some True \<and> u_is_active u = Some True) (joined s)"

definition recommendation_of :: "advocate_profile \<Rightarrow> user_row \<Rightarrow> part \<Rightarrow> recommendation" where
  "recommendation_of p u scored =
     \<lparr>rec_advocate_id = u_id u, rec_profile_id = ap_id p, rec_name = u_full_name u,
      match_score = round1 (fst scored), match_reasons = snd scored,
      rec_rating = backend_rating p, rec_review_count = ap_review_count p\<rparr>"

text \<open>
  The loop over the advocates: an exception of the scorer ends the call; an advocate
  whose score is not positive is left out.
\<close>

fun score_all :: "(advocate_profile \<times> user_row) list \<Rightarrow> case_profile \<Rightarrow> py_error + recommendation list" where
  "score_all [] cp = Inr []"
| "score_all ((p, u) # rest) cp =
     (case calculate_match_score p cp of
        Inl e \<Rightarrow> Inl e
      | Inr scored \<Rightarrow>
          (case score_all rest cp of
             Inl e \<Rightarrow> Inl e
           | Inr recs \<Rightarrow>
               Inr (if fst scored > 0 then recommendation_of p u scored # recs else recs)))"

text \<open>
  \<^verbatim>\<open>recommendations.sort(key=lambda x: x["match_score"], reverse=True)\<close>: a stable
  sort, descending in the score.
\<close>

definition sort_by_score :: "recommendation list \<Rightarrow> recommendation list" where
  "sort_by_score recs = sort_key (\<lambda>r. - match_score r) recs"

definition ranking :: "db \<Rightarrow> case_profile \<Rightarrow> py_error + recommendation list" where
  "ranking s cp =
     (case score_all (available_advocates s) cp of
        Inl e \<Rightarrow> Inl e
      | Inr recs \<Rightarrow> Inr (sort_by_score recs))"

definition get_recommendations :: "db \<Rightarrow> case_profile \<Rightarrow> int \<Rightarrow> py_error + recommendation list" where
  "get_recommendations s cp limit =
     (case ranking s cp of
        Inl e \<Rightarrow> Inl e
      | Inr recs \<Rightarrow> Inr (py_take limit recs))"


section \<open>The case lifecycle: \<^verbatim>\<open>select_advocate\<close>, \<^verbatim>\<open>accept_case_request\<close>, \<^verbatim>\<open>reject_case_request\<close>\<close>

text \<open>
  An endpoint takes the database and returns its result, an exception or a response,
  together with the database it leaves: what it has committed. An exception before the
  commit leaves the database as it was.
\<close>

datatype response =
    SelectResponse uuid string
  | AcceptResponse uuid "uuid option"
  | RejectResponse uuid

definition column :: "'a option \<Rightarrow> 'a field" where
  "column v = (case v of None \<Rightarrow> Null | Some x \<Rightarrow> Val x)"

definition or_default :: "string option \<Rightarrow> string \<Rightarrow> string" where
  "or_default v dflt = (case v of None \<Rightarrow> dflt | Some x \<Rightarrow> if x = [] then dflt else x)"

text \<open>The case profile \<^verbatim>\<open>select_advocate\<close> builds from the columns of the case.\<close>

definition select_profile :: "case_row \<Rightarrow> case_profile" where
  "select_profile c =
     no_keys\<lparr>cp_matter_type := column (c_matter_type c),
       cp_sub_category := column (c_sub_category c),
       cp_state := column (c_state c),
       cp_district := column (c_district c),
       cp_court_level := Val (or_default (c_court_level c) ''district''),
       cp_complexity := Val (or_default (c_complexity c) ''moderate'')\<rparr>"

definition get_advocate_by_id :: "db \<Rightarrow> uuid \<Rightarrow> (advocate_profile \<times> user_row) option" where
  "get_advocate_by_id s advocate_id =
     first_row (filter (\<lambda>(p, u). u_id u = advocate_id) (joined s))"

text \<open>
  \<^verbatim>\<open>next((r for r in recommendations if r["advocate_id"] == ...), default)\<close>: the
  entry of the selected advocate in the ranking, or the default 50, "Selected by client".
\<close>

definition match_info :: "recommendation list \<Rightarrow> uuid \<Rightarrow> rat \<times> reason list" where
  "match_info recs advocate_id =
     (case find (\<lambda>r. rec_advocate_id r = advocate_id) recs of
        None \<Rightarrow> (50, [SelectedByClient])
      | Some r \<Rightarrow> (match_score r, match_reasons r))"

text \<open>
  An \<^verbatim>\<open>UPDATE\<close> of a case sets \<^verbatim>\<open>updated_at\<close> (the column's
  \<^verbatim>\<open>onupdate\<close>); the session sends none when no column changes.
\<close>

definition touch :: "time \<Rightarrow> case_row \<Rightarrow> case_row \<Rightarrow> case_row" where
  "touch now old new = (if new = old then old else new\<lparr>c_updated_at := now\<rparr>)"

definition select_advocate :: "uuid \<Rightarrow> uuid \<Rightarrow> user_row \<Rightarrow> uuid \<Rightarrow> time \<Rightarrow> db \<Rightarrow> (py_error + response) \<times> db" where
  "select_advocate case_id advocate_id current_user new_id now s =
     (case scalar_one_or_none
             (filter (\<lambda>c. c_id c = case_id \<and> c_client_id c = u_id current_user) (cases s)) of
        Inl e \<Rightarrow> (Inl e, s)
      | Inr None \<Rightarrow> (Inl (HTTPException 404 ''Case not found''), s)
      | Inr (Some c) \<Rightarrow>
          if c_status c = ADVOCATE_ASSIGNED
          then (Inl (HTTPException 400 ''An advocate has already been assigned to this case''), s)
          else
            (case scalar_one_or_none
                    (filter (\<lambda>r. r_case_id r = case_id \<and> r_status r = PENDING) (case_requests s)) of
               Inl e \<Rightarrow> (Inl e, s)
             | Inr (Some pending) \<Rightarrow>
                 (Inl (HTTPException 400 ''There is already a pending request for this case''), s)
             | Inr None \<Rightarrow>
                 (case get_advocate_by_id s advocate_id of
                    None \<Rightarrow> (Inl (HTTPException 404 ''Advocate not found''), s)
                  | Some advocate_data \<Rightarrow>
                      (case get_recommendations s (select_profile c) 20 of
                         Inl e \<Rightarrow> (Inl e, s)
                       | Inr recommendations \<Rightarrow>
                           if new_id \<in> set (map r_id (case_requests s)) then (Inl IntegrityError, s)
                           else
                             (let info = match_info recommendations advocate_id;
                                  case_request =
                                    \<lparr>r_id = new_id, r_case_id = case_id, r_advocate_id = advocate_id,
                                     r_client_id = u_id current_user,
                                     r_match_score = Some (py_int (fst info)),
                                     r_match_explanation = snd info,
                                     r_status = PENDING, r_response_at = None,
                                     r_rejection_reason = None\<rparr>
                              in (Inr (SelectResponse new_id (u_full_name (snd advocate_data))),
                                  s\<lparr>case_requests := case_requests s @ [case_request],
                                    cases :=
                                      map (\<lambda>row. if c_id row = c_id c
                                                   then touch now row
                                                          (row\<lparr>c_status := PENDING_ADVOCATE,
                                                             c_selected_advocate_id := Some advocate_id,
                                                             c_advocate_response := Some Response_PENDING\<rparr>)
                                                   else row)
                                          (cases s),
                                    notifications :=
                                      notifications s @
                                        [\<lparr>n_user_id = advocate_id, n_type = ''case_request'',
                                          n_case_id = case_id\<rparr>]\<rparr>))))))"

text \<open>
  The same endpoint in the two parts the session runs it in. The queries (lines 528 to
  585), each of them awaited, read the database as it is when they run and build the
  request. The writes (lines 596 to 612) reach the database at \<^verbatim>\<open>db.commit()\<close>, as
  it is then: the endpoint takes no lock on the case and the table of requests has no
  constraint over the requests of a case, so the insert succeeds whatever other sessions
  have committed since the queries, unless the generated key is taken. The case is
  updated as in \<^verbatim>\<open>select_advocate\<close>: the three columns are set on the row the
  database holds, and \<^verbatim>\<open>updated_at\<close> with them when that changes the row.
\<close>

definition select_advocate_queries :: "uuid \<Rightarrow> uuid \<Rightarrow> user_row \<Rightarrow> uuid \<Rightarrow> db \<Rightarrow> py_error + (request_row \<times> string)" where
  "select_advocate_queries case_id advocate_id current_user new_id s =
     (case scalar_one_or_none
             (filter (\<lambda>c. c_id c = case_id \<and> c_client_id c = u_id current_user) (cases s)) of
        Inl e \<Rightarrow> Inl e
      | Inr None \<Rightarrow> Inl (HTTPException 404 ''Case not found'')
      | Inr (Some c) \<Rightarrow>
          if c_status c = ADVOCATE_ASSIGNED
          then Inl (HTTPException 400 ''An advocate has already been assigned to this case'')
          else
            (case scalar_one_or_none
                    (filter (\<lambda>r. r_case_id r = case_id \<and> r_status r = PENDING) (case_requests s)) of
               Inl e \<Rightarrow> Inl e
             | Inr (Some pending) \<Rightarrow>
                 Inl (HTTPException 400 ''There is already a pending request for this case'')
             | Inr None \<Rightarrow>
                 (case get_advocate_by_id s advocate_id of
                    None \<Rightarrow> Inl (HTTPException 404 ''Advocate not found'')
                  | Some advocate_data \<Rightarrow>
                      (case get_recommendations s (select_profile c) 20 of
                         Inl e \<Rightarrow> Inl e
                       | Inr recommendations \<Rightarrow>
                           (let info = match_info recommendations advocate_id
                            in Inr (\<lparr>r_id = new_id, r_case_id = case_id,
                                      r_advocate_id = advocate_id,
                                      r_client_id = u_id current_user,
                                      r_match_score = Some (py_int (fst info)),
                                      r_match_explanation = snd info,
                                      r_status = PENDING, r_response_at = None,
                                      r_rejection_reason = None\<rparr>,
                                    u_full_name (snd advocate_data)))))))"

definition select_advocate_commit :: "request_row \<Rightarrow> string \<Rightarrow> time \<Rightarrow> db \<Rightarrow> (py_error + response) \<times> db" where
  "select_advocate_commit case_request advocate_name now s =
     (if r_id case_request \<in> set (map r_id (case_requests s)) then (Inl IntegrityError, s)
      else
        (Inr (SelectResponse (r_id case_request) advocate_name),
         s\<lparr>case_requests := case_requests s @ [case_request],
           cases :=
             map (\<lambda>row. if c_id row = r_case_id case_request
                          then touch now row
                                 (row\<lparr>c_status := PENDING_ADVOCATE,
                                    c_selected_advocate_id := Some (r_advocate_id case_request),
                                    c_advocate_response := Some Response_PENDING\<rparr>)
                          else row)
                 (cases s),
           notifications :=
             notifications s @
               [\<lparr>n_user_id = r_advocate_id case_request, n_type = ''case_request'',
                 n_case_id = r_case_id case_request\<rparr>]\<rparr>))"

text \<open>The message the advocate's acceptance posts in the conversation.\<close>

definition takeover_message :: "string \<Rightarrow> string" where
  "takeover_message full_name =
     ''Hello! I'' @ [CHR 0x27] @ ''m '' @ full_name @
     '', and I'' @ [CHR 0x27] @ ''ll be assisting you with your case from now on. I'' @ [CHR 0x27] @
     ''ve reviewed our AI assistant'' @ [CHR 0x27] @
     ''s conversation with you and am ready to help. Please feel free to ask any questions or share additional information.''"

text \<open>
  The four groups of writes of an acceptance, each on the rows its
  \<^verbatim>\<open>UPDATE ... WHERE id = ...\<close> reaches.
\<close>

definition accept_request_rows :: "uuid \<Rightarrow> time \<Rightarrow> request_row list \<Rightarrow> request_row list" where
  "accept_request_rows request_id now rows =
     map (\<lambda>r. if r_id r = request_id
               then r\<lparr>r_status := ACCEPTED, r_response_at := Some now\<rparr> else r) rows"

definition accept_case_rows :: "uuid \<Rightarrow> uuid \<Rightarrow> time \<Rightarrow> case_row list \<Rightarrow> case_row list" where
  "accept_case_rows case_id advocate_id now rows =
     map (\<lambda>c. if c_id c = case_id
               then c\<lparr>c_advocate_id := Some advocate_id, c_status := ADVOCATE_ASSIGNED,
                      c_advocate_response := Some Response_ACCEPTED, c_updated_at := now\<rparr>
               else c) rows"

definition activate_conversation_rows :: "uuid \<Rightarrow> time \<Rightarrow> conversation_row list \<Rightarrow> conversation_row list" where
  "activate_conversation_rows conversation_id now rows =
     map (\<lambda>cv. if cv_id cv = conversation_id
                then cv\<lparr>cv_phase := ADVOCATE_ACTIVE, cv_updated_at := now\<rparr> else cv) rows"

definition increment_load_rows :: "advocate_profile \<Rightarrow> advocate_profile list \<Rightarrow> advocate_profile list" where
  "increment_load_rows profile rows =
     map (\<lambda>p. if ap_id p = ap_id profile
               then p\<lparr>ap_current_case_load := Some (or_zero (ap_current_case_load profile) + 1)\<rparr>
               else p) rows"

definition accept_case_request :: "uuid \<Rightarrow> user_row \<Rightarrow> time \<Rightarrow> db \<Rightarrow> (py_error + response) \<times> db" where
  "accept_case_request request_id current_user now s =
     (case scalar_one_or_none
             (filter (\<lambda>r. r_id r = request_id \<and> r_advocate_id r = u_id current_user)
                     (case_requests s)) of
        Inl e \<Rightarrow> (Inl e, s)
      | Inr None \<Rightarrow> (Inl (HTTPException 404 ''Case request not found''), s)
      | Inr (Some case_request) \<Rightarrow>
          if r_status case_request \<noteq> PENDING
          then (Inl (HTTPException 400 ''This request has already been processed''), s)
          else
            (case scalar_one (filter (\<lambda>c. c_id c = r_case_id case_request) (cases s)) of
               Inl e \<Rightarrow> (Inl e, s)
             | Inr c \<Rightarrow>
                 (case (case c_conversation_id c of
                          None \<Rightarrow> Inr None
                        | Some conversation_id \<Rightarrow>
                            scalar_one_or_none
                              (filter (\<lambda>cv. cv_id cv = conversation_id) (conversations s))) of
                    Inl e \<Rightarrow> (Inl e, s)
                  | Inr conversation \<Rightarrow>
                      (case scalar_one_or_none
                              (filter (\<lambda>p. ap_user_id p = u_id current_user) (advocate_profiles s)) of
                         Inl e \<Rightarrow> (Inl e, s)
                       | Inr profile \<Rightarrow>
                           (Inr (AcceptResponse (c_id c) (c_conversation_id c)),
                            s\<lparr>case_requests := accept_request_rows request_id now (case_requests s),
                              cases := accept_case_rows (c_id c) (u_id current_user) now (cases s),
                              conversations :=
                                (case conversation of
                                   None \<Rightarrow> conversations s
                                 | Some cv \<Rightarrow> activate_conversation_rows (cv_id cv) now (conversations s)),
                              messages :=
                                (case conversation of
                                   None \<Rightarrow> messages s
                                 | Some cv \<Rightarrow>
                                     messages s @
                                       [\<lparr>m_conversation_id = cv_id cv, m_sender_type = Sender_ADVOCATE,
                                         m_sender_id = Some (u_id current_user),
                                         m_content = takeover_message (u_full_name current_user),
                                         m_message_type = Message_SYSTEM\<rparr>]),
                              advocate_profiles :=
                                (case profile of
                                   None \<Rightarrow> advocate_profiles s
                                 | Some p \<Rightarrow> increment_load_rows p (advocate_profiles s)),
                              notifications :=
                                notifications s @
                                  [\<lparr>n_user_id = r_client_id case_request,
                                    n_type = ''advocate_accepted'', n_case_id = c_id c\<rparr>]\<rparr>)))))"

definition reject_request_rows :: "uuid \<Rightarrow> string option \<Rightarrow> time \<Rightarrow> request_row list \<Rightarrow> request_row list" where
  "reject_request_rows request_id rejection_reason now rows =
     map (\<lambda>r. if r_id r = request_id
               then r\<lparr>r_status := REJECTED, r_response_at := Some now,
                      r_rejection_reason := rejection_reason\<rparr>
               else r) rows"

definition reject_case_rows :: "uuid \<Rightarrow> string option \<Rightarrow> time \<Rightarrow> case_row list \<Rightarrow> case_row list" where
  "reject_case_rows case_id rejection_reason now rows =
     map (\<lambda>c. if c_id c = case_id
               then c\<lparr>c_status := ADVOCATE_REJECTED,
                      c_advocate_response := Some Response_REJECTED,
                      c_rejection_reason := rejection_reason, c_updated_at := now\<rparr>
               else c) rows"

definition reject_case_request :: "uuid \<Rightarrow> string option \<Rightarrow> user_row \<Rightarrow> time \<Rightarrow> db \<Rightarrow> (py_error + response) \<times> db" where
  "reject_case_request request_id rejection_reason current_user now s =
     (case scalar_one_or_none
             (filter (\<lambda>r. r_id r = request_id \<and> r_advocate_id r = u_id current_user)
                     (case_requests s)) of
        Inl e \<Rightarrow> (Inl e, s)
      | Inr None \<Rightarrow> (Inl (HTTPException 404 ''Case request not found''), s)
      | Inr (Some case_request) \<Rightarrow>
          if r_status case_request \<noteq> PENDING
          then (Inl (HTTPException 400 ''This request has already been processed''), s)
          else
            (case scalar_one (filter (\<lambda>c. c_id c = r_case_id case_request) (cases s)) of
               Inl e \<Rightarrow> (Inl e, s)
             | Inr c \<Rightarrow>
                 (Inr (RejectResponse (c_id c)),
                  s\<lparr>case_requests := reject_request_rows request_id rejection_reason now (case_requests s),
                    cases := reject_case_rows (c_id c) rejection_reason now (cases s),
                    notifications :=
                      notifications s @
                        [\<lparr>n_user_id = r_client_id case_request,
                          n_type = ''advocate_rejected'', n_case_id = c_id c\<rparr>]\<rparr>)))"

section \<open>Ingesting a case profile: the case part of \<^verbatim>\<open>send_message\<close>\<close>

text \<open>
  What a commit stores in a column for the value the session holds for it. The engine of
  the backend is made from \<^verbatim>\<open>DATABASE_URL\<close>, \<^verbatim>\<open>postgresql+asyncpg\<close>
  (\<^verbatim>\<open>config.py\<close>, line 11), and a column admits the values of its type:
  \<^item> \<^verbatim>\<open>String(n)\<close> and \<^verbatim>\<open>Text\<close>: \<^verbatim>\<open>None\<close> or a string, of at most \<open>n\<close>
    characters for \<^verbatim>\<open>String(n)\<close>;
  \<^item> \<^verbatim>\<open>Numeric(15, 2)\<close>: \<^verbatim>\<open>None\<close> or a number, which the database rounds to two
    decimal places (half away from zero) and refuses from thirteen integer digits on;
  \<^item> an enum column: \<^verbatim>\<open>None\<close>, or a string that is the name or the value of a member
    (the members are strings, so SQLAlchemy finds the member for either);
  \<^item> \<^verbatim>\<open>UUID\<close>: \<^verbatim>\<open>None\<close> or a string of 32 hexadecimal digits, with or without
    hyphens;
  \<^item> \<^verbatim>\<open>JSONB\<close>: any JSON value;
  \<^item> \<^verbatim>\<open>DateTime\<close>: \<^verbatim>\<open>None\<close> only, as JSON has no value for a time.
  Any other value makes the commit raise, here \<open>DataError\<close>, and nothing is written.
\<close>

definition string_column :: "nat option \<Rightarrow> json \<Rightarrow> py_error + string option" where
  "string_column n v =
     (case v of
        JNull \<Rightarrow> Inr None
      | JString x \<Rightarrow>
          (case n of
             None \<Rightarrow> Inr (Some x)
           | Some k \<Rightarrow> if length x \<le> k then Inr (Some x) else Inl DataError)
      | _ \<Rightarrow> Inl DataError)"

definition numeric_15_2 :: "rat \<Rightarrow> rat" where
  "numeric_15_2 x = sgn x * of_int \<lfloor>\<bar>x\<bar> * 100 + 1 / 2\<rfloor> / 100"

definition numeric_column :: "json \<Rightarrow> py_error + rat option" where
  "numeric_column v =
     (case v of
        JNull \<Rightarrow> Inr None
      | JNumber x \<Rightarrow>
          if \<bar>numeric_15_2 x\<bar> < 10 ^ 13 then Inr (Some (numeric_15_2 x)) else Inl DataError
      | _ \<Rightarrow> Inl DataError)"

definition case_status_of :: "string \<Rightarrow> case_status option" where
  "case_status_of x =
     (if x = ''AI_CONVERSATION'' \<or> x = ''ai_conversation'' then Some AI_CONVERSATION
      else if x = ''PENDING_ADVOCATE'' \<or> x = ''pending_advocate'' then Some PENDING_ADVOCATE
      else if x = ''ADVOCATE_ASSIGNED'' \<or> x = ''advocate_assigned'' then Some ADVOCATE_ASSIGNED
      else if x = ''ADVOCATE_REJECTED'' \<or> x = ''advocate_rejected'' then Some ADVOCATE_REJECTED
      else if x = ''IN_PROGRESS'' \<or> x = ''in_progress'' then Some IN_PROGRESS
      else if x = ''COMPLETED'' \<or> x = ''completed'' then Some COMPLETED
      else if x = ''CLOSED'' \<or> x = ''closed'' then Some CLOSED
      else None)"

definition advocate_response_of :: "string \<Rightarrow> advocate_response option" where
  "advocate_response_of x =
     (if x = ''PENDING'' \<or> x = ''pending'' then Some Response_PENDING
      else if x = ''ACCEPTED'' \<or> x = ''accepted'' then Some Response_ACCEPTED
      else if x = ''REJECTED'' \<or> x = ''rejected'' then Some Response_REJECTED
      else None)"

definition enum_column :: "(string \<Rightarrow> 'a option) \<Rightarrow> json \<Rightarrow> py_error + 'a option" where
  "enum_column member v =
     (case v of
        JNull \<Rightarrow> Inr None
      | JString x \<Rightarrow> (case member x of None \<Rightarrow> Inl DataError | Some m \<Rightarrow> Inr (Some m))
      | _ \<Rightarrow> Inl DataError)"

definition hex_value :: "char \<Rightarrow> nat option" where
  "hex_value c =
     (let n = (of_char c :: nat) in
      if 48 \<le> n \<and> n \<le> 57 then Some (n - 48)
      else if 97 \<le> n \<and> n \<le> 102 then Some (n - 87)
      else if 65 \<le> n \<and> n \<le> 70 then Some (n - 55)
      else None)"

definition uuid_of_string :: "string \<Rightarrow> uuid option" where
  "uuid_of_string x =
     (let digits = map hex_value (filter (\<lambda>c. c \<noteq> CHR ''-'') x) in
      if length digits = 32 \<and> None \<notin> set digits
      then Some (foldl (\<lambda>n d. 16 * n + (case d of None \<Rightarrow> 0 | Some k \<Rightarrow> k)) 0 digits)
      else None)"

definition uuid_column :: "json \<Rightarrow> py_error + uuid option" where
  "uuid_column v =
     (case v of
        JNull \<Rightarrow> Inr None
      | JString x \<Rightarrow> (case uuid_of_string x of None \<Rightarrow> Inl DataError | Some k \<Rightarrow> Inr (Some k))
      | _ \<Rightarrow> Inl DataError)"

text \<open>
  The attributes \<^verbatim>\<open>models/case.py\<close> gives a case: its columns and its relationships.
  (The names the class inherits from \<^verbatim>\<open>Base\<close> and \<^verbatim>\<open>object\<close> are no columns, and
  are left out: \<^verbatim>\<open>app.database\<close> is not among the sources.)
\<close>

definition case_columns :: "string list" where
  "case_columns =
     [''id'', ''client_id'', ''advocate_id'', ''conversation_id'', ''matter_type'',
      ''sub_category'', ''state'', ''district'', ''court_level'', ''complexity'', ''urgency'',
      ''amount_in_dispute'', ''case_summary'', ''extracted_facts'', ''status'',
      ''selected_advocate_id'', ''advocate_response'', ''rejection_reason'', ''created_at'',
      ''updated_at'']"

definition case_relationships :: "string list" where
  "case_relationships = [''client'', ''advocate'', ''conversation'', ''case_requests'']"

text \<open>
  \<^verbatim>\<open>setattr(case, key, value)\<close> for a relationship and a value that came from JSON: the
  value is no mapped object (nor, for \<^verbatim>\<open>case_requests\<close>, a list of them), and the
  assignment raises at once.
\<close>

definition set_relationship :: "string \<Rightarrow> json \<Rightarrow> py_error" where
  "set_relationship key v =
     (if key = ''case_requests''
      then (case v of JArray xs \<Rightarrow> AttributeError | _ \<Rightarrow> TypeError)
      else AttributeError)"

text \<open>
  \<^verbatim>\<open>for key, value in case_profile.items(): if hasattr(case, key) and value:
  setattr(case, key, value)\<close>. The loop raises at the first truthy value under the name of
  a relationship; otherwise it leaves the session with the truthy values under the names
  of columns, in the order of the items.
\<close>

fun assigned_columns :: "(string \<times> json) list \<Rightarrow> py_error + (string \<times> json) list" where
  "assigned_columns [] = Inr []"
| "assigned_columns ((key, v) # items) =
     (if truthy v \<and> key \<in> set case_relationships then Inl (set_relationship key v)
      else
        (case assigned_columns items of
           Inl e \<Rightarrow> Inl e
         | Inr rest \<Rightarrow>
             Inr (if truthy v \<and> key \<in> set case_columns then (key, v) # rest else rest)))"

text \<open>
  The row the commit writes for one assigned column: the value the column stores for it,
  or the refusal of the value. The loop assigns truthy values only, so no \<^verbatim>\<open>None\<close>
  reaches a column here that the row cannot hold; \<^verbatim>\<open>created_at\<close> and
  \<^verbatim>\<open>updated_at\<close> admit no JSON value but \<^verbatim>\<open>None\<close>.
\<close>

definition store_column :: "string \<Rightarrow> json \<Rightarrow> case_row \<Rightarrow> py_error + case_row" where
  "store_column key v c =
     (if key = ''id''
      then (case uuid_column v of
              Inr (Some k) \<Rightarrow> Inr (c\<lparr>c_id := k\<rparr>)
            | _ \<Rightarrow> Inl DataError)
      else if key = ''client_id''
      then (case uuid_column v of
              Inr (Some k) \<Rightarrow> Inr (c\<lparr>c_client_id := k\<rparr>)
            | _ \<Rightarrow> Inl DataError)
      else if key = ''advocate_id''
      then map_sum id (\<lambda>x. c\<lparr>c_advocate_id := x\<rparr>) (uuid_column v)
      else if key = ''conversation_id''
      then map_sum id (\<lambda>x. c\<lparr>c_conversation_id := x\<rparr>) (uuid_column v)
      else if key = ''matter_type''
      then map_sum id (\<lambda>x. c\<lparr>c_matter_type := x\<rparr>) (string_column (Some 50) v)
      else if key = ''sub_category''
      then map_sum id (\<lambda>x. c\<lparr>c_sub_category := x\<rparr>) (string_column (Some 100) v)
      else if key = ''state''
      then map_sum id (\<lambda>x. c\<lparr>c_state := x\<rparr>) (string_column (Some 100) v)
      else if key = ''district''
      then map_sum id (\<lambda>x. c\<lparr>c_district := x\<rparr>) (string_column (Some 100) v)
      else if key = ''court_level''
      then map_sum id (\<lambda>x. c\<lparr>c_court_level := x\<rparr>) (string_column (Some 50) v)
      else if key = ''complexity''
      then map_sum id (\<lambda>x. c\<lparr>c_complexity := x\<rparr>) (string_column (Some 20) v)
      else if key = ''urgency''
      then map_sum id (\<lambda>x. c\<lparr>c_urgency := x\<rparr>) (string_column (Some 20) v)
      else if key = ''amount_in_dispute''
      then map_sum id (\<lambda>x. c\<lparr>c_amount_in_dispute := x\<rparr>) (numeric_column v)
      else if key = ''case_summary''
      then map_sum id (\<lambda>x. c\<lparr>c_case_summary := x\<rparr>) (string_column None v)
      else if key = ''extracted_facts''
      then Inr (c\<lparr>c_extracted_facts := Some v\<rparr>)
      else if key = ''status''
      then (case enum_column case_status_of v of
              Inr (Some m) \<Rightarrow> Inr (c\<lparr>c_status := m\<rparr>)
            | _ \<Rightarrow> Inl DataError)
      else if key = ''selected_advocate_id''
      then map_sum id (\<lambda>x. c\<lparr>c_selected_advocate_id := x\<rparr>) (uuid_column v)
      else if key = ''advocate_response''
      then map_sum id (\<lambda>x. c\<lparr>c_advocate_response := x\<rparr>) (enum_column advocate_response_of v)
      else if key = ''rejection_reason''
      then map_sum id (\<lambda>x. c\<lparr>c_rejection_reason := x\<rparr>) (string_column None v)
      else Inl DataError)"

fun store_columns :: "(string \<times> json) list \<Rightarrow> case_row \<Rightarrow> py_error + case_row" where
  "store_columns [] c = Inr c"
| "store_columns ((key, v) # items) c =
     (case store_column key v c of
        Inl e \<Rightarrow> Inl e
      | Inr c' \<Rightarrow> store_columns items c')"

text \<open>
  The key constraints the database checks for the columns an \<^verbatim>\<open>UPDATE\<close> changes: the
  primary key stays unique and no request or conversation is left pointing at the old one;
  a foreign key names a row of its table.
\<close>

definition keys_hold :: "db \<Rightarrow> case_row \<Rightarrow> case_row \<Rightarrow> bool" where
  "keys_hold s old new =
     ((c_id new = c_id old
       \<or> (c_id new \<notin> set (map c_id (cases s))
          \<and> c_id old \<notin> set (map r_case_id (case_requests s))
          \<and> Some (c_id old) \<notin> set (map cv_case_id (conversations s))))
      \<and> (c_client_id new = c_client_id old \<or> c_client_id new \<in> set (map u_id (users s)))
      \<and> (c_advocate_id new = c_advocate_id old
          \<or> (case c_advocate_id new of None \<Rightarrow> True | Some k \<Rightarrow> k \<in> set (map u_id (users s))))
      \<and> (c_selected_advocate_id new = c_selected_advocate_id old
          \<or> (case c_selected_advocate_id new of
                None \<Rightarrow> True
              | Some k \<Rightarrow> k \<in> set (map u_id (users s))))
      \<and> (c_conversation_id new = c_conversation_id old
          \<or> (case c_conversation_id new of
                None \<Rightarrow> True
              | Some k \<Rightarrow> k \<in> set (map cv_id (conversations s)))))"

text \<open>
  The update of an existing case (lines 300 to 302, and the commit of line 328): the
  assignments of the loop, then the row the commit writes for them.
\<close>

definition update_case_profile :: "db \<Rightarrow> (string \<times> json) list \<Rightarrow> case_row \<Rightarrow> py_error + case_row" where
  "update_case_profile s items c =
     (case assigned_columns items of
        Inl e \<Rightarrow> Inl e
      | Inr assigned \<Rightarrow>
          (case store_columns assigned c of
             Inl e \<Rightarrow> Inl e
           | Inr c' \<Rightarrow> if keys_hold s c c' then Inr c' else Inl IntegrityError))"

text \<open>
  The case a first profile creates (lines 305 to 317, committed at line 319): seven keys
  are copied with \<^verbatim>\<open>case_profile.get\<close>, the whole profile is kept as
  \<^verbatim>\<open>extracted_facts\<close>, the other columns get their defaults. The keys
  \<^verbatim>\<open>urgency\<close> and \<^verbatim>\<open>amount_in_dispute\<close> are not copied.
\<close>

definition new_case :: "uuid \<Rightarrow> uuid \<Rightarrow> uuid \<Rightarrow> (string \<times> json) list \<Rightarrow> time \<Rightarrow> py_error + case_row" where
  "new_case new_id client_id conversation_id items now =
     store_columns
       [(''matter_type'', dict_get items ''matter_type''),
        (''sub_category'', dict_get items ''sub_category''),
        (''state'', dict_get items ''state''),
        (''district'', dict_get items ''district''),
        (''court_level'', dict_get items ''court_level''),
        (''complexity'', dict_get items ''complexity''),
        (''case_summary'', dict_get items ''case_summary'')]
       \<lparr>c_id = new_id, c_client_id = client_id, c_advocate_id = None,
        c_conversation_id = Some conversation_id,
        c_matter_type = None, c_sub_category = None, c_state = None, c_district = None,
        c_court_level = None, c_complexity = None, c_urgency = None,
        c_amount_in_dispute = None, c_case_summary = None,
        c_extracted_facts = Some (JObject items), c_status = AI_CONVERSATION,
        c_selected_advocate_id = None, c_advocate_response = None,
        c_rejection_reason = None, c_updated_at = now\<rparr>"

text \<open>
  \<^verbatim>\<open>case_profile.items()\<close> and \<^verbatim>\<open>case_profile.get\<close>: only an object has them.
\<close>

definition profile_items :: "json \<Rightarrow> py_error + (string \<times> json) list" where
  "profile_items profile =
     (case profile of JObject items \<Rightarrow> Inr items | _ \<Rightarrow> Inl AttributeError)"

text \<open>
  Lines 285 to 328 of \<^verbatim>\<open>send_message\<close>, for the conversation of the request and the
  profile the assistant returned (\<open>None\<close>: no profile). The conversation has been found
  and is in an AI phase; the messages of the exchange are left out. Whatever raises
  leaves the cases and the conversation as they were.
\<close>

definition ingest_case_profile :: "uuid \<Rightarrow> json option \<Rightarrow> user_row \<Rightarrow> uuid \<Rightarrow> time \<Rightarrow> db \<Rightarrow> (py_error + bool) \<times> db" where
  "ingest_case_profile conversation_id case_profile current_user new_id now s =
     (case scalar_one_or_none
             (filter (\<lambda>cv. cv_id cv = conversation_id \<and> cv_client_id cv = u_id current_user)
                     (conversations s)) of
        Inl e \<Rightarrow> (Inl e, s)
      | Inr None \<Rightarrow> (Inl (HTTPException 404 ''Conversation not found''), s)
      | Inr (Some conversation) \<Rightarrow>
          if cv_phase conversation \<notin> {AI_INTERVIEW, AI_COUNSELLING, AI_DRAFTING}
          then (Inl (HTTPException 400
                  ''This conversation is now with an advocate. AI responses are disabled.''), s)
          else
            (let stamp = (\<lambda>rows. map (\<lambda>cv. if cv_id cv = conversation_id
                                               then cv\<lparr>cv_updated_at := now\<rparr> else cv) rows);
                 profile = (case case_profile of None \<Rightarrow> JNull | Some v \<Rightarrow> v)
             in if \<not> truthy profile
                then (Inr False, s\<lparr>conversations := stamp (conversations s)\<rparr>)
                else
                  (case cv_case_id conversation of
                     Some case_id \<Rightarrow>
                       (case scalar_one_or_none (filter (\<lambda>c. c_id c = case_id) (cases s)) of
                          Inl err \<Rightarrow> (Inl err, s)
                        | Inr None \<Rightarrow>
                            (case profile_items profile of
                               Inl err \<Rightarrow> (Inl err, s)
                             | Inr items \<Rightarrow>
                                 (Inr True, s\<lparr>conversations := stamp (conversations s)\<rparr>))
                        | Inr (Some c) \<Rightarrow>
                            (case profile_items profile of
                               Inl err \<Rightarrow> (Inl err, s)
                             | Inr items \<Rightarrow>
                                 (case update_case_profile s items c of
                                    Inl err \<Rightarrow> (Inl err, s)
                                  | Inr c' \<Rightarrow>
                                      (Inr True,
                                       s\<lparr>cases :=
                                           map (\<lambda>row. if c_id row = c_id c
                                                        then touch now c c' else row)
                                               (cases s),
                                         conversations := stamp (conversations s)\<rparr>))))
                   | None \<Rightarrow>
                       (case profile_items profile of
                          Inl err \<Rightarrow> (Inl err, s)
                        | Inr items \<Rightarrow>
                            (case new_case new_id (u_id current_user) conversation_id
                                    items now of
                               Inl err \<Rightarrow> (Inl err, s)
                             | Inr c \<Rightarrow>
                                 if new_id \<in> set (map c_id (cases s))
                                 then (Inl IntegrityError, s)
                                 else
                                   (Inr True,
                                    s\<lparr>cases := cases s @ [c],
                                      conversations :=
                                        map (\<lambda>cv. if cv_id cv = conversation_id
                                                   then cv\<lparr>cv_case_id := Some new_id,
                                                          cv_updated_at := now\<rparr>
                                                   else cv)
                                            (conversations s)\<rparr>))))))"

section \<open>The states the lifecycle reaches\<close>

text \<open>
  The pending requests of a case, and the databases that calls of the three lifecycle
  operations lead to from one without requests when the calls run one after another:
  each call reads and writes the database the call before it left. Calls that overlap
  are not steps of this relation.
\<close>

definition pending_requests :: "db \<Rightarrow> uuid \<Rightarrow> request_row list" where
  "pending_requests s case_id =
     filter (\<lambda>r. r_case_id r = case_id \<and> r_status r = PENDING) (case_requests s)"

inductive reachable_in_sequence :: "db \<Rightarrow> bool" where
  initial: "case_requests s = [] \<Longrightarrow> reachable_in_sequence s"
| select: "reachable_in_sequence s \<Longrightarrow>
     reachable_in_sequence (snd (select_advocate case_id advocate_id current_user new_id now s))"
| accept: "reachable_in_sequence s \<Longrightarrow>
     reachable_in_sequence (snd (accept_case_request request_id current_user now s))"
| reject: "reachable_in_sequence s \<Longrightarrow>
     reachable_in_sequence
       (snd (reject_case_request request_id rejection_reason current_user now s))"

section \<open>A small database\<close>

text \<open>
  One client, the advocate of Scenario A (practicing in South Delhi), the client's case
  and its conversation; no request yet.
\<close>

definition client_user :: user_row where
  "client_user = \<lparr>u_id = 10, u_full_name = ''Asha Verma'', u_is_active = Some True\<rparr>"

definition advocate_user :: user_row where
  "advocate_user = \<lparr>u_id = 1, u_full_name = ''Adv. Rajesh Kumar Sharma'', u_is_active = Some True\<rparr>"

definition demo_case :: case_row where
  "demo_case =
     \<lparr>c_id = 100, c_client_id = 10, c_advocate_id = None, c_conversation_id = Some 200,
      c_matter_type = Some ''civil'', c_sub_category = None, c_state = Some ''Delhi'',
      c_district = Some ''South Delhi'', c_court_level = Some ''district'',
      c_complexity = Some ''moderate'', c_urgency = None, c_amount_in_dispute = None,
      c_case_summary = None, c_extracted_facts = None, c_status = AI_CONVERSATION,
      c_selected_advocate_id = None, c_advocate_response = None, c_rejection_reason = None,
      c_updated_at = 0\<rparr>"

definition demo_conversation :: conversation_row where
  "demo_conversation =
     \<lparr>cv_id = 200, cv_case_id = Some 100, cv_client_id = 10, cv_phase = AI_INTERVIEW,
      cv_ai_container_id = None, cv_updated_at = 0\<rparr>"

definition demo_db :: db where
  "demo_db =
     \<lparr>users = [client_user, advocate_user],
      advocate_profiles = [scenario_advocate (Some [''South Delhi''])],
      cases = [demo_case], case_requests = [], conversations = [demo_conversation],
      messages = [], notifications = []\<rparr>"

text \<open>The request \<^verbatim>\<open>select_advocate\<close> creates for this case and advocate.\<close>

definition demo_request :: request_row where
  "demo_request =
     \<lparr>r_id = 300, r_case_id = 100, r_advocate_id = 1, r_client_id = 10,
      r_match_score = Some 70,
      r_match_explanation =
        [SpecializesIn ''civil'', PracticesIn ''Delhi'', FamiliarWith ''South Delhi'',
         YearsOfPractice 19, ModerateAvailability, FeeCompatible ''premium'',
         HighlyRated (24 / 5) None],
      r_status = PENDING, r_response_at = None, r_rejection_reason = None\<rparr>"

definition demo_pending :: db where
  "demo_pending =
     demo_db\<lparr>case_requests := [demo_request],
       cases := [demo_case\<lparr>c_status := PENDING_ADVOCATE, c_selected_advocate_id := Some 1,
                   c_advocate_response := Some Response_PENDING, c_updated_at := 5\<rparr>],
       notifications := [\<lparr>n_user_id = 1, n_type = ''case_request'', n_case_id = 100\<rparr>]\<rparr>"

text \<open>The same database once the advocate has declined the request.\<close>

definition demo_rejected :: db where
  "demo_rejected =
     demo_pending\<lparr>case_requests := [demo_request\<lparr>r_status := REJECTED, r_response_at := Some 6\<rparr>]\<rparr>"

text \<open>The same database, the advocate accepting no new cases.\<close>

definition demo_unavailable_db :: db where
  "demo_unavailable_db =
     demo_db\<lparr>advocate_profiles :=
       [(scenario_advocate (Some [''South Delhi'']))\<lparr>ap_is_available := Some False\<rparr>]\<rparr>"

text \<open>
  Three advocates who differ in their ratings only (4.6, 4.8 and 4.7, all above 4.5), in
  this order in the directory.
\<close>

definition rated_advocate :: "uuid \<Rightarrow> rat \<Rightarrow> advocate_profile" where
  "rated_advocate k rating =
     (scenario_advocate (Some [''South Delhi'']))\<lparr>ap_id := k, ap_user_id := k,
        ap_rating := Some rating\<rparr>"


text \<open>
  The small database with a second advocate, and the requests two calls of
  \<^verbatim>\<open>select_advocate\<close> build for its case, one for each advocate.
\<close>

definition second_advocate_user :: user_row where
  "second_advocate_user = \<lparr>u_id = 2, u_full_name = ''Adv. Priya Mehta'', u_is_active = Some True\<rparr>"

definition two_advocates_db :: db where
  "two_advocates_db =
     demo_db\<lparr>users := [client_user, advocate_user, second_advocate_user],
       advocate_profiles := [rated_advocate 1 (24 / 5), rated_advocate 2 (24 / 5)]\<rparr>"

definition second_request :: request_row where
  "second_request = demo_request\<lparr>r_id := 301, r_advocate_id := 2\<rparr>"

text \<open>
  A directory of twenty-one advocates, all eligible for the case of the small database:
  twenty rated 4.8 and the twenty-first rated 4.0.
\<close>

definition crowded_db :: db where
  "crowded_db =
     demo_db\<lparr>users :=
         client_user #
         map (\<lambda>k. \<lparr>u_id = k, u_full_name = ''Advocate'', u_is_active = Some True\<rparr>)
             [1, 2, 3, 4, 5, 6, 7, 8, 9, 10, 11, 12, 13, 14, 15, 16, 17, 18, 19, 20, 21],
       advocate_profiles :=
         map (\<lambda>k. rated_advocate k (if k = 21 then 4 else 24 / 5))
             [1, 2, 3, 4, 5, 6, 7, 8, 9, 10, 11, 12, 13, 14, 15, 16, 17, 18, 19, 20, 21]\<rparr>"

section \<open>A conversation without a case\<close>

text \<open>
  A conversation of the client that has no case yet, and two profiles the assistant may
  return for it: one names the urgency, the other a status.
\<close>

definition fresh_db :: db where
  "fresh_db =
     \<lparr>users = [client_user], advocate_profiles = [], cases = [], case_requests = [],
      conversations = [demo_conversation\<lparr>cv_case_id := None\<rparr>], messages = [],
      notifications = []\<rparr>"

definition urgent_profile :: json where
  "urgent_profile =
     JObject [(''matter_type'', JString ''civil''), (''state'', JString ''Delhi''),
              (''urgency'', JString ''urgent'')]"

definition closing_profile :: json where
  "closing_profile =
     JObject [(''matter_type'', JString ''civil''), (''state'', JString ''Delhi''),
              (''status'', JString ''closed'')]"

section \<open>Corresponding advocate records\<close>



text \<open>
  The first record of the bot's registry, \<^verbatim>\<open>ADV001\<close>, and the row the seed script
  of the backend creates for the same advocate (its keys are generated; 1 stands for
  both). The registry counts 12 landmark cases; the text of the row has no comma.
\<close>

definition registry_adv001 :: bot_advocate where
  "registry_adv001 =
     \<lparr>ba_advocate_id = ''ADV001'',
      ba_practicing_states = [''Delhi'', ''Haryana'', ''Punjab''],
      ba_practicing_districts = [''Central Delhi'', ''South Delhi'', ''Gurugram''],
      ba_home_court = ''Delhi High Court'',
      ba_specializations = [''civil'', ''constitutional'', ''property''],
      ba_sub_specializations = [''Writ Petitions'', ''Land Acquisition'', ''RERA''],
      ba_years_of_practice = 19, ba_landmark_cases = 12,
      ba_success_rate_category = ''excellent'', ba_current_case_load = 28,
      ba_max_case_load = 40, ba_available_for_new_cases = True,
      ba_fee_category = ''premium'', ba_languages = [''Hindi'', ''English'', ''Punjabi''],
      ba_rating = 24 / 5, ba_total_reviews = 156\<rparr>"

definition seed_adv001 :: advocate_profile where
  "seed_adv001 =
     \<lparr>ap_id = 1, ap_user_id = 1,
      ap_states = Some [''Delhi'', ''Haryana'', ''Punjab''],
      ap_districts = Some [''Central Delhi'', ''South Delhi'', ''Gurugram''],
      ap_home_court = Some ''Delhi High Court'',
      ap_primary_specializations = Some [''civil'', ''constitutional'', ''property''],
      ap_sub_specializations = Some [''Writ Petitions'', ''Land Acquisition'', ''RERA''],
      ap_experience_years = Some 19,
      ap_landmark_cases =
        Some ''12 reported judgments in property and constitutional matters'',
      ap_success_rate = Some (171 / 2), ap_current_case_load = Some 28,
      ap_max_case_capacity = Some 40, ap_fee_category = Some PREMIUM,
      ap_languages = Some [''Hindi'', ''English'', ''Punjabi''],
      ap_rating = Some (24 / 5), ap_review_count = Some 156, ap_is_available = Some True\<rparr>"


text \<open>The case of Scenario A under the keys the bot reads.\<close>

definition scenario_keyed :: case_profile where
  "scenario_keyed =
     scenario_case\<lparr>cp_complexity := Absent, cp_estimated_complexity := Val ''moderate''\<rparr>"

section \<open>Facts about the scorers\<close>

lemmas python_defs =
  pyget_def truthy_str_def or_empty_def or_zero_def py_mem_def split_count_def
  common_count_def

lemmas clause_defs =
  no_part_def parts_def final_score_def experience_part_def availability_part_def
  fee_part_def language_part_def rating_part_def district_part_def home_court_part_def
  expertise_part_def sub_category_part_def complexity_requirements_def fee_mapping_def
  first_expertise_def sub_category_hit_def

lemmas backend_defs =
  backend_complexity_def backend_urgency_def backend_specialization_def
  backend_state_part_def backend_home_court_def backend_landmark_def
  backend_workload_ratio_def backend_fee_def backend_rating_def backend_success_def
  backend_clauses_def calculate_match_score_def

lemmas bot_defs =
  bot_specialization_def bot_senior_def bot_landmark_def bot_success_def bot_clauses_def
  calculate_advocate_match_score_def

lemmas scenario_defs =
  no_keys_def scenario_case_def scenario_advocate_def scenario_bot_advocate_def

text \<open>
  C8, as amended. On the inputs of Scenario A and an advocate whose practicing districts
  include the district of the case, South Delhi (the scenario's "geography 10+10"),
  the backend scorer returns exactly 74, and its availability clause contributes 4 points:
  the workload ratio 28/40 is not below 7/10.
\<close>

theorem scenario_a_score:
  assumes "''South Delhi'' \<in> set ds"
  shows "calculate_match_score (scenario_advocate (Some ds)) scenario_case =
           Inr (74, [SpecializesIn ''civil'', PracticesIn ''Delhi'', FamiliarWith ''South Delhi'',
                     YearsOfPractice 19, ModerateAvailability, FeeMatches ''premium'',
                     HighlyRated (24 / 5) None])
         \<and> availability_part (backend_workload_ratio (scenario_advocate (Some ds)))
               (backend_urgency scenario_case) = (4, [ModerateAvailability])"
  using assms
  by (simp add: scenario_defs backend_defs clause_defs python_defs)

theorem scenario_a_score_witness:
  "calculate_match_score (scenario_advocate (Some [''South Delhi''])) scenario_case =
     Inr (74, [SpecializesIn ''civil'', PracticesIn ''Delhi'', FamiliarWith ''South Delhi'',
               YearsOfPractice 19, ModerateAvailability, FeeMatches ''premium'',
               HighlyRated (24 / 5) None])
   \<and> availability_part (backend_workload_ratio (scenario_advocate (Some [''South Delhi''])))
         (backend_urgency scenario_case) = (4, [ModerateAvailability])"
  using scenario_a_score [of "[''South Delhi'']"] by simp

text \<open>
  C8, the counterexample. The inputs the scenario lists (civil, Delhi, South Delhi,
  district court, moderate, premium; the advocate specializing in civil matters,
  practicing in Delhi, 19 years, load 28 of 40, premium, rated 4.8) say nothing of the
  advocate's practicing districts. With no district list, or an empty one, the scorer
  returns 64, not 74: the ten points of the district clause are missing.
\<close>

theorem scenario_a_without_districts:
  "calculate_match_score (scenario_advocate None) scenario_case =
     Inr (64, [SpecializesIn ''civil'', PracticesIn ''Delhi'', YearsOfPractice 19,
               ModerateAvailability, FeeMatches ''premium'', HighlyRated (24 / 5) None])
   \<and> calculate_match_score (scenario_advocate (Some [])) scenario_case =
     Inr (64, [SpecializesIn ''civil'', PracticesIn ''Delhi'', YearsOfPractice 19,
               ModerateAvailability, FeeMatches ''premium'', HighlyRated (24 / 5) None])
   \<and> fst (projr (calculate_match_score (scenario_advocate None) scenario_case)) \<noteq> 74"
  by (simp add: scenario_defs backend_defs clause_defs python_defs)

text \<open>
  C6, as amended. An advocate whose availability flag is not true scores 0 with exactly
  one reason, in both scorers. The reason is "Currently not accepting new cases" unless
  the geographic filter, which comes first, rejects the advocate: then the one reason is
  "Not available in" the state of the case. (The bot raises \<^verbatim>\<open>TypeError\<close> when the
  profile holds \<^verbatim>\<open>None\<close> for the state.)
\<close>

theorem unavailable_scores_zero:
  "(ap_is_available profile \<noteq> Some True \<longrightarrow>
      calculate_match_score profile cp =
        Inr (0, [case pyget (cp_state cp) [] of
                   None \<Rightarrow> NotAccepting
                 | Some s \<Rightarrow>
                     if s \<noteq> [] \<and> or_empty (ap_states profile) \<noteq> []
                        \<and> s \<notin> set (or_empty (ap_states profile))
                     then NotAvailableIn s else NotAccepting]))
   \<and> (\<not> ba_available_for_new_cases advocate \<and> pyget (cp_state cp) [] = Some st \<longrightarrow>
      calculate_advocate_match_score advocate cp =
        Inr (0, [if st \<notin> set (ba_practicing_states advocate)
                 then NotAvailableIn st else NotAccepting]))"
  by (auto simp: calculate_match_score_def calculate_advocate_match_score_def
        truthy_str_def py_mem_def split: option.splits)

theorem unavailable_scores_zero_witness:
  "calculate_match_score ((scenario_advocate None)\<lparr>ap_is_available := Some False\<rparr>) scenario_case
     = Inr (0, [NotAccepting])
   \<and> calculate_advocate_match_score
       ((scenario_bot_advocate [])\<lparr>ba_available_for_new_cases := False\<rparr>) scenario_case
     = Inr (0, [NotAccepting])"
  using unavailable_scores_zero
    [of "(scenario_advocate None)\<lparr>ap_is_available := Some False\<rparr>" scenario_case
        "(scenario_bot_advocate [])\<lparr>ba_available_for_new_cases := False\<rparr>" "''Delhi''"]
  by (simp add: scenario_defs python_defs)

text \<open>
  C6, the counterexample: an advocate who is not available and practices in another state
  scores 0 with the one reason "Not available in Delhi", which names the geographic
  cause, not the availability flag.
\<close>

theorem unavailable_elsewhere_reason:
  "ap_is_available elsewhere_unavailable = Some False
   \<and> calculate_match_score elsewhere_unavailable scenario_case = Inr (0, [NotAvailableIn ''Delhi''])
   \<and> calculate_match_score elsewhere_unavailable scenario_case \<noteq> Inr (0, [NotAccepting])"
  by (simp add: elsewhere_unavailable_def scenario_defs backend_defs python_defs)

text \<open>Only the senior-counsel clause gives the reason "Senior counsel experience".\<close>

lemma no_senior_reason:
  "SeniorCounsel \<notin> set (snd no_part)"
  "SeniorCounsel \<notin> set (snd (experience_part years complexity))"
  "SeniorCounsel \<notin> set (snd (availability_part ratio urgency))"
  "SeniorCounsel \<notin> set (snd (fee_part fee budget))"
  "SeniorCounsel \<notin> set (snd (language_part ls als))"
  "SeniorCounsel \<notin> set (snd (rating_part rating reviews))"
  "SeniorCounsel \<notin> set (snd (district_part hit district))"
  "SeniorCounsel \<notin> set (snd (home_court_part st hc))"
  "SeniorCounsel \<notin> set (snd (expertise_part 5 ExpertIn es subs))"
  "SeniorCounsel \<notin> set (snd (expertise_part 10 HasExperienceWith es subs))"
  "SeniorCounsel \<notin> set (snd (sub_category_part sc subs))"
  "SeniorCounsel \<notin> set (snd (bot_landmark advocate court_level))"
  "SeniorCounsel \<notin> set (snd (bot_success advocate))"
  by (simp_all add: no_part_def experience_part_def availability_part_def fee_part_def
        language_part_def rating_part_def district_part_def home_court_part_def
        expertise_part_def sub_category_part_def bot_landmark_def bot_success_def Let_def
        split: option.splits)

lemma no_senior_reason_specialization:
  "SeniorCounsel \<notin> set (snd (bot_specialization advocate cp expertise))"
  by (simp add: bot_specialization_def parts_def Let_def no_senior_reason split: option.splits)

text \<open>No clause of the backend reads \<^verbatim>\<open>requires_senior_counsel\<close>.\<close>

lemma backend_ignores_flag:
  "backend_complexity (cp\<lparr>cp_requires_senior_counsel := flag\<rparr>) = backend_complexity cp"
  "backend_urgency (cp\<lparr>cp_requires_senior_counsel := flag\<rparr>) = backend_urgency cp"
  "backend_specialization profile (cp\<lparr>cp_requires_senior_counsel := flag\<rparr>)
     = backend_specialization profile cp"
  by (simp_all add: backend_complexity_def backend_urgency_def backend_specialization_def
        split: field.splits)

text \<open>
  C3, as amended. In the bot's scorer, for an advocate and a case that pass the hard
  filters, a case that requires senior counsel and an advocate of at least 15 years earn
  5 points more than the same case without the requirement, before the cap at 100, and
  the reason "Senior counsel experience"; the experience clause itself is the same. The
  backend's scorer has no senior-counsel clause: its result does not depend on
  \<^verbatim>\<open>requires_senior_counsel\<close>.
\<close>

theorem senior_counsel_bonus:
  assumes "pyget (cp_state cp) [] = Some st"
    and "st \<in> set (ba_practicing_states advocate)"
    and "ba_available_for_new_cases advocate"
    and "pyget (cp_specific_expertise_needed cp) [] = Some expertise"
    and "ba_max_case_load advocate \<noteq> 0"
    and "pyget (cp_preferred_languages cp) [''Hindi'', ''English''] = Some languages"
    and "ba_years_of_practice advocate \<ge> 15"
  shows "calculate_advocate_match_score advocate (cp\<lparr>cp_requires_senior_counsel := Val False\<rparr>)
           = Inr (final_score (bot_clauses advocate (cp\<lparr>cp_requires_senior_counsel := Val False\<rparr>)
                                 st expertise languages))
         \<and> calculate_advocate_match_score advocate (cp\<lparr>cp_requires_senior_counsel := Val True\<rparr>)
           = Inr (final_score (bot_clauses advocate (cp\<lparr>cp_requires_senior_counsel := Val True\<rparr>)
                                 st expertise languages))
         \<and> fst (bot_clauses advocate (cp\<lparr>cp_requires_senior_counsel := Val True\<rparr>) st expertise languages)
           = fst (bot_clauses advocate (cp\<lparr>cp_requires_senior_counsel := Val False\<rparr>) st expertise languages) + 5
         \<and> SeniorCounsel \<in> set (snd (bot_clauses advocate (cp\<lparr>cp_requires_senior_counsel := Val True\<rparr>)
                                           st expertise languages))
         \<and> SeniorCounsel \<notin> set (snd (bot_clauses advocate (cp\<lparr>cp_requires_senior_counsel := Val False\<rparr>)
                                           st expertise languages))
         \<and> calculate_match_score profile (cp\<lparr>cp_requires_senior_counsel := flag\<rparr>)
           = calculate_match_score profile cp"
proof -
  let ?off = "cp\<lparr>cp_requires_senior_counsel := Val False\<rparr>"
  let ?on = "cp\<lparr>cp_requires_senior_counsel := Val True\<rparr>"
  have run: "calculate_advocate_match_score advocate (cp\<lparr>cp_requires_senior_counsel := f\<rparr>)
       = Inr (final_score (bot_clauses advocate (cp\<lparr>cp_requires_senior_counsel := f\<rparr>)
                             st expertise languages))" for f
    using assms by (simp add: calculate_advocate_match_score_def)
  have senior_on: "bot_senior advocate ?on = (5, [SeniorCounsel])"
    and senior_off: "bot_senior advocate ?off = no_part"
    using assms(7) by (simp_all add: bot_senior_def pyget_def)
  have spec: "bot_specialization advocate ?on expertise = bot_specialization advocate ?off expertise"
    by (simp add: bot_specialization_def)
  have points: "fst (bot_clauses advocate ?on st expertise languages)
      = fst (bot_clauses advocate ?off st expertise languages) + 5"
    by (simp add: bot_clauses_def parts_def senior_on senior_off spec no_part_def Let_def)
  have there: "SeniorCounsel \<in> set (snd (bot_clauses advocate ?on st expertise languages))"
    by (simp add: bot_clauses_def parts_def senior_on Let_def)
  have not_there: "SeniorCounsel \<notin> set (snd (bot_clauses advocate ?off st expertise languages))"
    by (simp add: bot_clauses_def parts_def senior_off Let_def no_senior_reason
          no_senior_reason_specialization)
  have "backend_clauses profile (cp\<lparr>cp_requires_senior_counsel := flag\<rparr>) home
      = backend_clauses profile cp home" for home
    by (simp add: backend_clauses_def backend_ignores_flag)
  then have backend: "calculate_match_score profile (cp\<lparr>cp_requires_senior_counsel := flag\<rparr>)
      = calculate_match_score profile cp"
    by (simp add: calculate_match_score_def Let_def split: sum.splits)
  from run [of "Val False"] run [of "Val True"] points there not_there backend
  show ?thesis by blast
qed

theorem senior_counsel_bonus_witness:
  "calculate_advocate_match_score (scenario_bot_advocate [''South Delhi''])
       (scenario_case\<lparr>cp_requires_senior_counsel := Val False\<rparr>) = Inr (74,
         [SpecializesIn ''civil'', PracticesIn ''Delhi'', FamiliarWith ''South Delhi'',
          YearsOfPractice 19, ModerateAvailability, FeeMatches ''premium'',
          HighlyRated (24 / 5) (Some 0)])
   \<and> calculate_advocate_match_score (scenario_bot_advocate [''South Delhi''])
       (scenario_case\<lparr>cp_requires_senior_counsel := Val True\<rparr>) = Inr (79,
         [SpecializesIn ''civil'', PracticesIn ''Delhi'', FamiliarWith ''South Delhi'',
          YearsOfPractice 19, SeniorCounsel, ModerateAvailability, FeeMatches ''premium'',
          HighlyRated (24 / 5) (Some 0)])
   \<and> calculate_match_score (scenario_advocate None)
       (scenario_case\<lparr>cp_requires_senior_counsel := Val True\<rparr>)
     = calculate_match_score (scenario_advocate None) scenario_case"
  using senior_counsel_bonus
    [of scenario_case "''Delhi''" "scenario_bot_advocate [''South Delhi'']" "[]"
        "[''Hindi'', ''English'']" "scenario_advocate None" "Val True"]
  by (simp add: scenario_defs bot_defs clause_defs python_defs)

text \<open>
  C3, the counterexample: the backend's scorer gives the advocate of Scenario A, with 19
  years of practice, the same 74 points whether or not the case requires senior counsel.
\<close>

theorem backend_ignores_senior_counsel:
  "or_zero (ap_experience_years (scenario_advocate (Some [''South Delhi'']))) \<ge> 15
   \<and> calculate_match_score (scenario_advocate (Some [''South Delhi'']))
        (scenario_case\<lparr>cp_requires_senior_counsel := Val True\<rparr>)
      = Inr (74, [SpecializesIn ''civil'', PracticesIn ''Delhi'', FamiliarWith ''South Delhi'',
                  YearsOfPractice 19, ModerateAvailability, FeeMatches ''premium'',
                  HighlyRated (24 / 5) None])
   \<and> calculate_match_score (scenario_advocate (Some [''South Delhi'']))
        (scenario_case\<lparr>cp_requires_senior_counsel := Val False\<rparr>)
      = Inr (74, [SpecializesIn ''civil'', PracticesIn ''Delhi'', FamiliarWith ''South Delhi'',
                  YearsOfPractice 19, ModerateAvailability, FeeMatches ''premium'',
                  HighlyRated (24 / 5) None])"
  by (simp add: scenario_defs backend_defs clause_defs python_defs)

section \<open>Facts about queries\<close>

lemma filter_key_unique:
  assumes "distinct (map key rows)" and "x \<in> set rows"
  shows "filter (\<lambda>y. key y = key x) rows = [x]"
  using assms
proof (induction rows)
  case Nil
  then show ?case by simp
next
  case (Cons a rows)
  show ?case
  proof (cases "a = x")
    case True
    with Cons.prems have "\<forall>y \<in> set rows. key y \<noteq> key x" by (metis distinct.simps(2) image_eqI list.simps(9) set_map)
    then have "filter (\<lambda>y. key y = key x) rows = []" by (simp add: filter_empty_conv)
    with True show ?thesis by simp
  next
    case False
    with Cons.prems have "x \<in> set rows" and "key a \<noteq> key x" by auto
    with Cons show ?thesis by simp
  qed
qed

lemma filter_key_and:
  assumes "distinct (map key rows)" and "x \<in> set rows"
  shows "filter (\<lambda>y. key y = key x \<and> P y) rows = (if P x then [x] else [])"
proof -
  have "filter (\<lambda>y. key y = key x \<and> P y) rows = filter P (filter (\<lambda>y. key y = key x) rows)"
    by (simp add: conj_commute)
  with filter_key_unique [OF assms] show ?thesis by simp
qed

lemma filter_map_update:
  assumes "\<And>y. P (f y) = P y"
  shows "filter P (map f rows) = map f (filter P rows)"
  using assms by (induction rows) simp_all

lemma filter_shrinks:
  assumes "\<And>y. P (f y) \<Longrightarrow> P y"
  shows "length (filter P (map f rows)) \<le> length (filter P rows)"
  using assms by (induction rows) (auto simp: le_SucI)

section \<open>Facts about the lifecycle\<close>

text \<open>
  C7. A request that is not pending is refused by both \<^verbatim>\<open>accept_case_request\<close> and
  \<^verbatim>\<open>reject_case_request\<close>, and the whole database is what it was: called by the
  advocate of the request they raise 400, "This request has already been processed"
  (another caller does not find the request: 404).
\<close>

theorem non_pending_is_refused:
  assumes "distinct (map r_id (case_requests s))"
    and "r \<in> set (case_requests s)"
    and "r_status r \<noteq> PENDING"
  shows "accept_case_request (r_id r) current_user now s =
           (Inl (if u_id current_user = r_advocate_id r
                 then HTTPException 400 ''This request has already been processed''
                 else HTTPException 404 ''Case request not found''), s)
         \<and> reject_case_request (r_id r) why current_user now s =
           (Inl (if u_id current_user = r_advocate_id r
                 then HTTPException 400 ''This request has already been processed''
                 else HTTPException 404 ''Case request not found''), s)"
proof -
  have "filter (\<lambda>y. r_id y = r_id r \<and> r_advocate_id y = u_id current_user) (case_requests s)
      = (if r_advocate_id r = u_id current_user then [r] else [])"
    using assms(1,2) by (rule filter_key_and)
  with assms(3) show ?thesis
    by (auto simp: accept_case_request_def reject_case_request_def scalar_one_or_none_def)
qed

lemmas demo_defs =
  client_user_def advocate_user_def demo_case_def demo_conversation_def demo_db_def
  demo_request_def demo_pending_def demo_rejected_def

theorem non_pending_is_refused_witness:
  "accept_case_request 300 advocate_user 7 demo_rejected =
     (Inl (HTTPException 400 ''This request has already been processed''), demo_rejected)
   \<and> reject_case_request 300 None advocate_user 7 demo_rejected =
     (Inl (HTTPException 400 ''This request has already been processed''), demo_rejected)"
  using non_pending_is_refused
    [of demo_rejected "demo_request\<lparr>r_status := REJECTED, r_response_at := Some 6\<rparr>"
        advocate_user 7 None]
  by (simp add: demo_defs)

lemma lookup_unique:
  assumes "distinct (map key rows)"
  shows "scalar_one_or_none (filter (\<lambda>y. key y = k) rows) = Inr (find (\<lambda>y. key y = k) rows)"
proof (cases "find (\<lambda>y. key y = k) rows")
  case None
  then have "filter (\<lambda>y. key y = k) rows = []"
    by (simp add: find_None_iff filter_empty_conv)
  with None show ?thesis by (simp add: scalar_one_or_none_def)
next
  case (Some x)
  then have "x \<in> set rows" and "key x = k"
    by (auto simp: find_Some_iff)
  with filter_key_unique [OF assms, of x] have "filter (\<lambda>y. key y = k) rows = [x]" by simp
  with Some show ?thesis by (simp add: scalar_one_or_none_def)
qed

lemma find_key_unique:
  assumes "distinct (map key rows)" and "x \<in> set rows"
  shows "find (\<lambda>y. key y = key x) rows = Some x"
proof -
  have "scalar_one_or_none (filter (\<lambda>y. key y = key x) rows) = Inr (Some x)"
    using filter_key_unique [OF assms] by (simp add: scalar_one_or_none_def)
  with lookup_unique [OF assms(1), of "key x"] show ?thesis by simp
qed

text \<open>Every exit of \<^verbatim>\<open>accept_case_request\<close> with an exception leaves the database as it was.\<close>

lemma accept_failure_unchanged:
  "fst (accept_case_request request_id current_user now s) = Inl e
     \<Longrightarrow> snd (accept_case_request request_id current_user now s) = s"
  by (auto simp: accept_case_request_def split: sum.splits option.splits if_splits)

lemma reject_failure_unchanged:
  "fst (reject_case_request request_id why current_user now s) = Inl e
     \<Longrightarrow> snd (reject_case_request request_id why current_user now s) = s"
  by (auto simp: reject_case_request_def split: sum.splits option.splits if_splits)

lemma select_failure_unchanged:
  "fst (select_advocate case_id advocate_id current_user new_id now s) = Inl e
     \<Longrightarrow> snd (select_advocate case_id advocate_id current_user new_id now s) = s"
  by (auto simp: select_advocate_def Let_def split: sum.splits option.splits if_splits)

text \<open>
  C2. Accepting a pending request, by the advocate it was sent to, succeeds and leaves
  the request accepted with the time of the response, the case assigned to the accepting
  advocate, the linked conversation in the phase \<open>ADVOCATE_ACTIVE\<close> and the advocate's
  case load one greater than before (\<^verbatim>\<open>None\<close> counting as 0). The writes are one
  commit: a call that raises leaves the database as it was.
\<close>

theorem accept_pending_request:
  "(distinct (map r_id (case_requests s)) \<and> r \<in> set (case_requests s)
      \<and> r_status r = PENDING \<and> u_id current_user = r_advocate_id r
      \<and> distinct (map c_id (cases s)) \<and> c \<in> set (cases s) \<and> c_id c = r_case_id r
      \<and> distinct (map cv_id (conversations s))
      \<and> distinct (map ap_user_id (advocate_profiles s))
    \<longrightarrow> (\<exists>s'. accept_case_request (r_id r) current_user now s =
                  (Inr (AcceptResponse (c_id c) (c_conversation_id c)), s')
          \<and> filter (\<lambda>x. r_id x = r_id r) (case_requests s') =
              [r\<lparr>r_status := ACCEPTED, r_response_at := Some now\<rparr>]
          \<and> filter (\<lambda>x. c_id x = c_id c) (cases s') =
              [c\<lparr>c_advocate_id := Some (u_id current_user), c_status := ADVOCATE_ASSIGNED,
                 c_advocate_response := Some Response_ACCEPTED, c_updated_at := now\<rparr>]
          \<and> (\<forall>cv \<in> set (conversations s). c_conversation_id c = Some (cv_id cv) \<longrightarrow>
                filter (\<lambda>x. cv_id x = cv_id cv) (conversations s') =
                  [cv\<lparr>cv_phase := ADVOCATE_ACTIVE, cv_updated_at := now\<rparr>])
          \<and> (\<forall>p \<in> set (advocate_profiles s). ap_user_id p = u_id current_user \<longrightarrow>
                filter (\<lambda>x. ap_user_id x = u_id current_user) (advocate_profiles s') =
                  [p\<lparr>ap_current_case_load := Some (or_zero (ap_current_case_load p) + 1)\<rparr>])))
   \<and> ((\<exists>e. fst (accept_case_request request_id current_user now s) = Inl e)
        \<longrightarrow> snd (accept_case_request request_id current_user now s) = s)"
proof (intro conjI impI)
  assume h: "distinct (map r_id (case_requests s)) \<and> r \<in> set (case_requests s)
      \<and> r_status r = PENDING \<and> u_id current_user = r_advocate_id r
      \<and> distinct (map c_id (cases s)) \<and> c \<in> set (cases s) \<and> c_id c = r_case_id r
      \<and> distinct (map cv_id (conversations s))
      \<and> distinct (map ap_user_id (advocate_profiles s))"
  let ?conv = "case c_conversation_id c of
                 None \<Rightarrow> None
               | Some k \<Rightarrow> find (\<lambda>cv. cv_id cv = k) (conversations s)"
  let ?prof = "find (\<lambda>p. ap_user_id p = u_id current_user) (advocate_profiles s)"
  let ?s' = "s\<lparr>case_requests := accept_request_rows (r_id r) now (case_requests s),
      cases := accept_case_rows (c_id c) (u_id current_user) now (cases s),
      conversations :=
        (case ?conv of
           None \<Rightarrow> conversations s
         | Some cv \<Rightarrow> activate_conversation_rows (cv_id cv) now (conversations s)),
      messages :=
        (case ?conv of
           None \<Rightarrow> messages s
         | Some cv \<Rightarrow>
             messages s @
               [\<lparr>m_conversation_id = cv_id cv, m_sender_type = Sender_ADVOCATE,
                 m_sender_id = Some (u_id current_user),
                 m_content = takeover_message (u_full_name current_user),
                 m_message_type = Message_SYSTEM\<rparr>]),
      advocate_profiles :=
        (case ?prof of
           None \<Rightarrow> advocate_profiles s
         | Some p \<Rightarrow> increment_load_rows p (advocate_profiles s)),
      notifications :=
        notifications s @
          [\<lparr>n_user_id = r_client_id r, n_type = ''advocate_accepted'', n_case_id = c_id c\<rparr>]\<rparr>"
  have req: "filter (\<lambda>y. r_id y = r_id r \<and> r_advocate_id y = u_id current_user) (case_requests s) = [r]"
    using h filter_key_and [of r_id "case_requests s" r "\<lambda>y. r_advocate_id y = u_id current_user"]
    by simp
  have cas: "filter (\<lambda>y. c_id y = r_case_id r) (cases s) = [c]"
    using h filter_key_unique [of c_id "cases s" c] by simp
  have conv: "(case c_conversation_id c of
                 None \<Rightarrow> Inr None
               | Some k \<Rightarrow> scalar_one_or_none (filter (\<lambda>cv. cv_id cv = k) (conversations s)))
              = Inr ?conv"
    using h by (simp add: lookup_unique split: option.splits)
  have prof: "scalar_one_or_none
                (filter (\<lambda>p. ap_user_id p = u_id current_user) (advocate_profiles s))
              = Inr ?prof"
    using h by (simp add: lookup_unique)
  have req': "scalar_one_or_none
                (filter (\<lambda>y. r_id y = r_id r \<and> r_advocate_id y = u_id current_user) (case_requests s))
              = Inr (Some r)"
    by (simp add: req scalar_one_or_none_def)
  have cas': "scalar_one (filter (\<lambda>y. c_id y = r_case_id r) (cases s)) = Inr c"
    by (simp add: cas scalar_one_def)
  from h have pending: "r_status r = PENDING" by simp
  have run: "accept_case_request (r_id r) current_user now s =
               (Inr (AcceptResponse (c_id c) (c_conversation_id c)), ?s')"
    by (simp add: accept_case_request_def req' cas' conv prof pending)
  have post_req: "filter (\<lambda>x. r_id x = r_id r) (case_requests ?s') =
      [r\<lparr>r_status := ACCEPTED, r_response_at := Some now\<rparr>]"
  proof -
    have "filter (\<lambda>x. r_id x = r_id r) (case_requests s) = [r]"
      using h filter_key_unique [of r_id "case_requests s" r] by simp
    then show ?thesis
      by (simp add: accept_request_rows_def filter_map_update)
  qed
  have post_case: "filter (\<lambda>x. c_id x = c_id c) (cases ?s') =
      [c\<lparr>c_advocate_id := Some (u_id current_user), c_status := ADVOCATE_ASSIGNED,
         c_advocate_response := Some Response_ACCEPTED, c_updated_at := now\<rparr>]"
  proof -
    have "filter (\<lambda>x. c_id x = c_id c) (cases s) = [c]"
      using h filter_key_unique [of c_id "cases s" c] by simp
    then show ?thesis
      by (simp add: accept_case_rows_def filter_map_update)
  qed
  have post_conv: "\<forall>cv \<in> set (conversations s). c_conversation_id c = Some (cv_id cv) \<longrightarrow>
      filter (\<lambda>x. cv_id x = cv_id cv) (conversations ?s') =
        [cv\<lparr>cv_phase := ADVOCATE_ACTIVE, cv_updated_at := now\<rparr>]"
  proof (intro ballI impI)
    fix cv assume cv: "cv \<in> set (conversations s)" "c_conversation_id c = Some (cv_id cv)"
    from h cv have found: "?conv = Some cv"
      by (simp add: find_key_unique)
    have "filter (\<lambda>x. cv_id x = cv_id cv) (conversations s) = [cv]"
      using h cv filter_key_unique [of cv_id "conversations s" cv] by simp
    then show "filter (\<lambda>x. cv_id x = cv_id cv) (conversations ?s') =
        [cv\<lparr>cv_phase := ADVOCATE_ACTIVE, cv_updated_at := now\<rparr>]"
      by (simp add: found activate_conversation_rows_def filter_map_update)
  qed
  have post_prof: "\<forall>p \<in> set (advocate_profiles s). ap_user_id p = u_id current_user \<longrightarrow>
      filter (\<lambda>x. ap_user_id x = u_id current_user) (advocate_profiles ?s') =
        [p\<lparr>ap_current_case_load := Some (or_zero (ap_current_case_load p) + 1)\<rparr>]"
  proof (intro ballI impI)
    fix p assume p: "p \<in> set (advocate_profiles s)" "ap_user_id p = u_id current_user"
    from h p find_key_unique [of ap_user_id "advocate_profiles s" p] have found: "?prof = Some p"
      by simp
    have "filter (\<lambda>x. ap_user_id x = u_id current_user) (advocate_profiles s) = [p]"
      using h p filter_key_unique [of ap_user_id "advocate_profiles s" p] by simp
    then show "filter (\<lambda>x. ap_user_id x = u_id current_user) (advocate_profiles ?s') =
        [p\<lparr>ap_current_case_load := Some (or_zero (ap_current_case_load p) + 1)\<rparr>]"
      by (simp add: found increment_load_rows_def filter_map_update)
  qed
  from run post_req post_case post_conv post_prof
  show "\<exists>s'. accept_case_request (r_id r) current_user now s =
                  (Inr (AcceptResponse (c_id c) (c_conversation_id c)), s')
          \<and> filter (\<lambda>x. r_id x = r_id r) (case_requests s') =
              [r\<lparr>r_status := ACCEPTED, r_response_at := Some now\<rparr>]
          \<and> filter (\<lambda>x. c_id x = c_id c) (cases s') =
              [c\<lparr>c_advocate_id := Some (u_id current_user), c_status := ADVOCATE_ASSIGNED,
                 c_advocate_response := Some Response_ACCEPTED, c_updated_at := now\<rparr>]
          \<and> (\<forall>cv \<in> set (conversations s). c_conversation_id c = Some (cv_id cv) \<longrightarrow>
                filter (\<lambda>x. cv_id x = cv_id cv) (conversations s') =
                  [cv\<lparr>cv_phase := ADVOCATE_ACTIVE, cv_updated_at := now\<rparr>])
          \<and> (\<forall>p \<in> set (advocate_profiles s). ap_user_id p = u_id current_user \<longrightarrow>
                filter (\<lambda>x. ap_user_id x = u_id current_user) (advocate_profiles s') =
                  [p\<lparr>ap_current_case_load := Some (or_zero (ap_current_case_load p) + 1)\<rparr>])"
    by blast
next
  assume "\<exists>e. fst (accept_case_request request_id current_user now s) = Inl e"
  then show "snd (accept_case_request request_id current_user now s) = s"
    using accept_failure_unchanged by blast
qed

theorem accept_pending_request_witness:
  "fst (accept_case_request 300 advocate_user 6 demo_pending) = Inr (AcceptResponse 100 (Some 200))
   \<and> filter (\<lambda>x. r_id x = 300) (case_requests (snd (accept_case_request 300 advocate_user 6 demo_pending)))
       = [demo_request\<lparr>r_status := ACCEPTED, r_response_at := Some 6\<rparr>]
   \<and> filter (\<lambda>x. c_id x = 100) (cases (snd (accept_case_request 300 advocate_user 6 demo_pending)))
       = [demo_case\<lparr>c_status := ADVOCATE_ASSIGNED, c_selected_advocate_id := Some 1,
            c_advocate_response := Some Response_ACCEPTED, c_updated_at := 6,
            c_advocate_id := Some 1\<rparr>]
   \<and> filter (\<lambda>x. cv_id x = 200) (conversations (snd (accept_case_request 300 advocate_user 6 demo_pending)))
       = [demo_conversation\<lparr>cv_phase := ADVOCATE_ACTIVE, cv_updated_at := 6\<rparr>]
   \<and> filter (\<lambda>x. ap_user_id x = 1) (advocate_profiles (snd (accept_case_request 300 advocate_user 6 demo_pending)))
       = [(scenario_advocate (Some [''South Delhi'']))\<lparr>ap_current_case_load := Some 29\<rparr>]"
  using accept_pending_request
    [of demo_pending demo_request advocate_user
        "demo_case\<lparr>c_status := PENDING_ADVOCATE, c_selected_advocate_id := Some 1,
           c_advocate_response := Some Response_PENDING, c_updated_at := 5\<rparr>" 6 300]
  by (auto simp: demo_defs scenario_defs or_zero_def)

section \<open>The pending-request invariant\<close>

lemma scalar_none_empty:
  "scalar_one_or_none rows = Inr None \<Longrightarrow> rows = []"
  by (simp add: scalar_one_or_none_def split: list.splits)

lemma scalar_some_single:
  "scalar_one_or_none rows = Inr (Some x) \<Longrightarrow> rows = [x]"
  by (simp add: scalar_one_or_none_def split: list.splits)

text \<open>What each operation does to the table of requests.\<close>

lemma select_requests:
  "case_requests (snd (select_advocate case_id advocate_id current_user new_id now s)) = case_requests s
   \<or> (\<exists>new. r_case_id new = case_id \<and> r_status new = PENDING
          \<and> pending_requests s case_id = []
          \<and> case_requests (snd (select_advocate case_id advocate_id current_user new_id now s))
              = case_requests s @ [new])"
  by (auto simp: select_advocate_def pending_requests_def Let_def
        dest: scalar_none_empty split: sum.splits option.splits if_splits)

lemma accept_requests:
  "case_requests (snd (accept_case_request request_id current_user now s)) = case_requests s
   \<or> case_requests (snd (accept_case_request request_id current_user now s))
       = accept_request_rows request_id now (case_requests s)"
  by (auto simp: accept_case_request_def split: sum.splits option.splits if_splits)

lemma reject_requests:
  "case_requests (snd (reject_case_request request_id why current_user now s)) = case_requests s
   \<or> case_requests (snd (reject_case_request request_id why current_user now s))
       = reject_request_rows request_id why now (case_requests s)"
  by (auto simp: reject_case_request_def split: sum.splits option.splits if_splits)

lemma pending_after_accept:
  "length (filter (\<lambda>r. r_case_id r = k \<and> r_status r = PENDING)
             (accept_request_rows request_id now rows))
     \<le> length (filter (\<lambda>r. r_case_id r = k \<and> r_status r = PENDING) rows)"
  unfolding accept_request_rows_def
  by (rule filter_shrinks) (simp split: if_splits)

lemma pending_after_reject:
  "length (filter (\<lambda>r. r_case_id r = k \<and> r_status r = PENDING)
             (reject_request_rows request_id why now rows))
     \<le> length (filter (\<lambda>r. r_case_id r = k \<and> r_status r = PENDING) rows)"
  unfolding reject_request_rows_def
  by (rule filter_shrinks) (simp split: if_splits)

lemma reachable_pending:
  "reachable_in_sequence s \<Longrightarrow> length (pending_requests s k) \<le> 1"
proof (induction arbitrary: k rule: reachable_in_sequence.induct)
  case (initial s)
  then show ?case by (simp add: pending_requests_def)
next
  case (select s case_id advocate_id current_user new_id now)
  from select_requests [of case_id advocate_id current_user new_id now s]
  show ?case
  proof
    assume "case_requests (snd (select_advocate case_id advocate_id current_user new_id now s))
              = case_requests s"
    with select.IH [of k] show ?thesis by (simp add: pending_requests_def)
  next
    assume "\<exists>new. r_case_id new = case_id \<and> r_status new = PENDING
          \<and> pending_requests s case_id = []
          \<and> case_requests (snd (select_advocate case_id advocate_id current_user new_id now s))
              = case_requests s @ [new]"
    then obtain new where new: "r_case_id new = case_id" "r_status new = PENDING"
        "pending_requests s case_id = []"
        "case_requests (snd (select_advocate case_id advocate_id current_user new_id now s))
              = case_requests s @ [new]"
      by blast
    show ?thesis
    proof (cases "k = case_id")
      case True
      with new show ?thesis by (simp add: pending_requests_def)
    next
      case False
      with new select.IH [of k] show ?thesis by (simp add: pending_requests_def)
    qed
  qed
next
  case (accept s request_id current_user now)
  from accept_requests [of request_id current_user now s] accept.IH [of k]
    pending_after_accept [of k request_id now "case_requests s"]
  show ?case by (auto simp: pending_requests_def)
next
  case (reject s request_id rejection_reason current_user now)
  from reject_requests [of request_id rejection_reason current_user now s] reject.IH [of k]
    pending_after_reject [of k request_id rejection_reason now "case_requests s"]
  show ?case by (auto simp: pending_requests_def)
qed

lemma select_success:
  assumes "fst (select_advocate case_id advocate_id current_user new_id now s) = Inr resp"
  shows "pending_requests s case_id = []"
    and "\<forall>c \<in> set (cases s). c_id c = case_id \<and> c_client_id c = u_id current_user
           \<longrightarrow> c_status c \<noteq> ADVOCATE_ASSIGNED"
    and "\<exists>new. r_case_id new = case_id \<and> r_status new = PENDING \<and> r_id new = new_id
           \<and> r_advocate_id new = advocate_id
           \<and> case_requests (snd (select_advocate case_id advocate_id current_user new_id now s))
               = case_requests s @ [new]"
proof -
  from assms obtain c where
      c: "scalar_one_or_none
            (filter (\<lambda>c. c_id c = case_id \<and> c_client_id c = u_id current_user) (cases s))
          = Inr (Some c)"
    and open_case: "c_status c \<noteq> ADVOCATE_ASSIGNED"
    and none: "scalar_one_or_none
            (filter (\<lambda>r. r_case_id r = case_id \<and> r_status r = PENDING) (case_requests s))
          = Inr None"
    by (auto simp: select_advocate_def Let_def split: sum.splits option.splits if_splits)
  from none show "pending_requests s case_id = []"
    by (simp add: pending_requests_def scalar_none_empty)
  from c have only: "filter (\<lambda>c. c_id c = case_id \<and> c_client_id c = u_id current_user) (cases s) = [c]"
    by (rule scalar_some_single)
  show "\<forall>c \<in> set (cases s). c_id c = case_id \<and> c_client_id c = u_id current_user
           \<longrightarrow> c_status c \<noteq> ADVOCATE_ASSIGNED"
  proof (intro ballI impI)
    fix x assume "x \<in> set (cases s)" "c_id x = case_id \<and> c_client_id x = u_id current_user"
    then have "x \<in> set (filter (\<lambda>c. c_id c = case_id \<and> c_client_id c = u_id current_user) (cases s))"
      by simp
    with only have "x = c" by simp
    with open_case show "c_status x \<noteq> ADVOCATE_ASSIGNED" by simp
  qed
  from assms c open_case none
  show "\<exists>new. r_case_id new = case_id \<and> r_status new = PENDING \<and> r_id new = new_id
           \<and> r_advocate_id new = advocate_id
           \<and> case_requests (snd (select_advocate case_id advocate_id current_user new_id now s))
               = case_requests s @ [new]"
    by (auto simp: select_advocate_def Let_def split: sum.splits option.splits if_splits)
qed

text \<open>
  C1, as amended. In every database that calls of \<^verbatim>\<open>select_advocate\<close>,
  \<^verbatim>\<open>accept_case_request\<close> and \<^verbatim>\<open>reject_case_request\<close> reach from one without
  requests when they run one after another, each case has at most one pending request.
  In such a database \<^verbatim>\<open>select_advocate\<close> succeeds only when the case has no pending
  request and is not \<open>ADVOCATE_ASSIGNED\<close>, and then the case has exactly one; when the
  case of the client is assigned or has a pending request, the call raises the conflict
  error (400) and changes nothing.
\<close>

theorem pending_invariant:
  assumes "reachable_in_sequence s"
  shows "length (pending_requests s k) \<le> 1
    \<and> (\<forall>resp. fst (select_advocate case_id advocate_id current_user new_id now s) = Inr resp \<longrightarrow>
          pending_requests s case_id = []
          \<and> (\<forall>c \<in> set (cases s). c_id c = case_id \<and> c_client_id c = u_id current_user
                \<longrightarrow> c_status c \<noteq> ADVOCATE_ASSIGNED)
          \<and> length (pending_requests
                (snd (select_advocate case_id advocate_id current_user new_id now s)) case_id) = 1)
    \<and> (\<forall>c. distinct (map c_id (cases s)) \<and> c \<in> set (cases s) \<and> c_id c = case_id
            \<and> c_client_id c = u_id current_user
            \<and> (c_status c = ADVOCATE_ASSIGNED \<or> pending_requests s case_id \<noteq> []) \<longrightarrow>
          select_advocate case_id advocate_id current_user new_id now s =
            (Inl (HTTPException 400
                   (if c_status c = ADVOCATE_ASSIGNED
                    then ''An advocate has already been assigned to this case''
                    else ''There is already a pending request for this case'')), s))"
proof (intro conjI allI impI)
  show "length (pending_requests s k) \<le> 1"
    using assms by (rule reachable_pending)
next
  fix resp
  assume ok: "fst (select_advocate case_id advocate_id current_user new_id now s) = Inr resp"
  from select_success(1) [OF ok] show "pending_requests s case_id = []" .
  from select_success(2) [OF ok]
  show "\<forall>c \<in> set (cases s). c_id c = case_id \<and> c_client_id c = u_id current_user
          \<longrightarrow> c_status c \<noteq> ADVOCATE_ASSIGNED" .
  from select_success(3) [OF ok] select_success(1) [OF ok]
  show "length (pending_requests
          (snd (select_advocate case_id advocate_id current_user new_id now s)) case_id) = 1"
    by (auto simp: pending_requests_def)
next
  fix c
  assume h: "distinct (map c_id (cases s)) \<and> c \<in> set (cases s) \<and> c_id c = case_id
            \<and> c_client_id c = u_id current_user
            \<and> (c_status c = ADVOCATE_ASSIGNED \<or> pending_requests s case_id \<noteq> [])"
  then have "filter (\<lambda>y. c_id y = c_id c \<and> c_client_id y = u_id current_user) (cases s) = [c]"
    using filter_key_and [of c_id "cases s" c "\<lambda>y. c_client_id y = u_id current_user"] by simp
  with h have found: "scalar_one_or_none
      (filter (\<lambda>y. c_id y = case_id \<and> c_client_id y = u_id current_user) (cases s)) = Inr (Some c)"
    by (auto simp: scalar_one_or_none_def)
  show "select_advocate case_id advocate_id current_user new_id now s =
            (Inl (HTTPException 400
                   (if c_status c = ADVOCATE_ASSIGNED
                    then ''An advocate has already been assigned to this case''
                    else ''There is already a pending request for this case'')), s)"
  proof (cases "c_status c = ADVOCATE_ASSIGNED")
    case True
    with found show ?thesis by (simp add: select_advocate_def)
  next
    case False
    with h have "pending_requests s case_id \<noteq> []" by simp
    moreover from assms have "length (pending_requests s case_id) \<le> 1"
      by (rule reachable_pending)
    ultimately obtain x where "pending_requests s case_id = [x]"
      by (cases "pending_requests s case_id") auto
    then have "scalar_one_or_none
        (filter (\<lambda>r. r_case_id r = case_id \<and> r_status r = PENDING) (case_requests s)) = Inr (Some x)"
      by (simp add: pending_requests_def scalar_one_or_none_def)
    with found False show ?thesis by (simp add: select_advocate_def)
  qed
qed

lemma demo_select:
  "select_advocate 100 1 client_user 300 5 demo_db =
     (Inr (SelectResponse 300 ''Adv. Rajesh Kumar Sharma''), demo_pending)"
  by (simp add: select_advocate_def demo_defs scenario_defs backend_defs clause_defs python_defs
        scalar_one_or_none_def get_advocate_by_id_def joined_def first_row_def
        get_recommendations_def ranking_def available_advocates_def recommendation_of_def
        sort_by_score_def py_take_def match_info_def select_profile_def column_def
        or_default_def touch_def py_int_def round1_def round_half_even_def)

lemma demo_pending_reachable: "reachable_in_sequence demo_pending"
proof -
  have "reachable_in_sequence demo_db"
    by (rule reachable_in_sequence.initial) (simp add: demo_db_def)
  then have "reachable_in_sequence (snd (select_advocate 100 1 client_user 300 5 demo_db))"
    by (rule reachable_in_sequence.select)
  then show ?thesis by (simp only: demo_select snd_conv)
qed

theorem pending_invariant_witness:
  "length (pending_requests demo_pending 100) = 1
   \<and> select_advocate 100 1 client_user 301 8 demo_pending =
       (Inl (HTTPException 400 ''There is already a pending request for this case''), demo_pending)
   \<and> fst (select_advocate 100 1 client_user 300 5 demo_db) = Inr (SelectResponse 300 ''Adv. Rajesh Kumar Sharma'')
   \<and> pending_requests demo_db 100 = []
   \<and> length (pending_requests (snd (select_advocate 100 1 client_user 300 5 demo_db)) 100) = 1"
proof -
  have "reachable_in_sequence demo_db"
    by (rule reachable_in_sequence.initial) (simp add: demo_db_def)
  from pending_invariant [OF this, of 100 100 1 client_user 300 5]
  have first: "pending_requests demo_db 100 = []
      \<and> length (pending_requests (snd (select_advocate 100 1 client_user 300 5 demo_db)) 100) = 1"
    by (simp only: demo_select fst_conv snd_conv; blast?)
  from pending_invariant [OF demo_pending_reachable, of 100 100 1 client_user 301 8]
  have second: "length (pending_requests demo_pending 100) \<le> 1
      \<and> select_advocate 100 1 client_user 301 8 demo_pending =
       (Inl (HTTPException 400 ''There is already a pending request for this case''), demo_pending)"
    by (simp add: demo_defs pending_requests_def)
  have "length (pending_requests demo_pending 100) = 1"
    by (simp add: demo_defs pending_requests_def)
  with first second show ?thesis by (simp only: demo_select fst_conv snd_conv; blast?)
qed

text \<open>
  A call of \<^verbatim>\<open>select_advocate\<close> that no other call overlaps is its queries followed
  by its commit, on one database.
\<close>

lemma select_advocate_phases:
  "select_advocate case_id advocate_id current_user new_id now s =
     (case select_advocate_queries case_id advocate_id current_user new_id s of
        Inl e \<Rightarrow> (Inl e, s)
      | Inr (case_request, advocate_name) \<Rightarrow>
          select_advocate_commit case_request advocate_name now s)"
proof -
  let ?q1 = "scalar_one_or_none
       (filter (\<lambda>c. c_id c = case_id \<and> c_client_id c = u_id current_user) (cases s))"
  let ?q2 = "scalar_one_or_none
       (filter (\<lambda>r. r_case_id r = case_id \<and> r_status r = PENDING) (case_requests s))"
  show ?thesis
  proof (cases ?q1)
    case (Inl e)
    then show ?thesis by (simp add: select_advocate_def select_advocate_queries_def)
  next
    case (Inr found)
    show ?thesis
    proof (cases found)
      case None
      with Inr show ?thesis by (simp add: select_advocate_def select_advocate_queries_def)
    next
      case (Some c)
      with Inr have q1: "?q1 = Inr (Some c)" by simp
      then have "filter (\<lambda>c. c_id c = case_id \<and> c_client_id c = u_id current_user) (cases s) = [c]"
        by (rule scalar_some_single)
      then have "c \<in> set (filter (\<lambda>c. c_id c = case_id \<and> c_client_id c = u_id current_user) (cases s))"
        by simp
      then have key: "c_id c = case_id" by simp
      show ?thesis
      proof (cases "c_status c = ADVOCATE_ASSIGNED")
        case True
        with q1 show ?thesis by (simp add: select_advocate_def select_advocate_queries_def)
      next
        case open_case: False
        show ?thesis
        proof (cases ?q2)
          case (Inl e)
          with q1 open_case show ?thesis
            by (simp add: select_advocate_def select_advocate_queries_def)
        next
          case q2: (Inr pending)
          show ?thesis
          proof (cases pending)
            case (Some r)
            with q1 open_case q2 show ?thesis
              by (simp add: select_advocate_def select_advocate_queries_def)
          next
            case None
            with q2 have q2: "?q2 = Inr None" by simp
            show ?thesis
            proof (cases "get_advocate_by_id s advocate_id")
              case None
              with q1 open_case q2 show ?thesis
                by (simp add: select_advocate_def select_advocate_queries_def)
            next
              case adv: (Some advocate_data)
              show ?thesis
              proof (cases "get_recommendations s (select_profile c) 20")
                case (Inl e)
                with q1 open_case q2 adv show ?thesis
                  by (simp add: select_advocate_def select_advocate_queries_def)
              next
                case (Inr recommendations)
                with q1 open_case q2 adv key show ?thesis
                  by (simp add: select_advocate_def select_advocate_queries_def
                        select_advocate_commit_def Let_def)
              qed
            qed
          qed
        qed
      qed
    qed
  qed
qed

text \<open>
  C1, the counterexample: two calls of \<^verbatim>\<open>select_advocate\<close> for the same
  case that overlap. Each runs its queries on the database without requests, so each
  finds no pending request; the first then commits, and the second commits to the
  database the first left. Both calls succeed, and the case has two pending requests.
\<close>

theorem overlapping_selects_leave_two_pending:
  "select_advocate_queries 100 1 client_user 300 two_advocates_db
     = Inr (demo_request, ''Adv. Rajesh Kumar Sharma'')
   \<and> select_advocate_queries 100 2 client_user 301 two_advocates_db
     = Inr (second_request, ''Adv. Priya Mehta'')
   \<and> fst (select_advocate_commit demo_request ''Adv. Rajesh Kumar Sharma'' 5 two_advocates_db)
     = Inr (SelectResponse 300 ''Adv. Rajesh Kumar Sharma'')
   \<and> fst (select_advocate_commit second_request ''Adv. Priya Mehta'' 6
            (snd (select_advocate_commit demo_request ''Adv. Rajesh Kumar Sharma'' 5
                    two_advocates_db)))
     = Inr (SelectResponse 301 ''Adv. Priya Mehta'')
   \<and> pending_requests
         (snd (select_advocate_commit second_request ''Adv. Priya Mehta'' 6
            (snd (select_advocate_commit demo_request ''Adv. Rajesh Kumar Sharma'' 5
                    two_advocates_db))))
         100
     = [demo_request, second_request]
   \<and> length (pending_requests
         (snd (select_advocate_commit second_request ''Adv. Priya Mehta'' 6
            (snd (select_advocate_commit demo_request ''Adv. Rajesh Kumar Sharma'' 5
                    two_advocates_db))))
         100) = 2"
  by (simp add: select_advocate_queries_def select_advocate_commit_def two_advocates_db_def
        second_request_def second_advocate_user_def rated_advocate_def pending_requests_def
        demo_defs scenario_defs backend_defs clause_defs python_defs
        scalar_one_or_none_def get_advocate_by_id_def joined_def first_row_def
        get_recommendations_def ranking_def available_advocates_def recommendation_of_def
        sort_by_score_def py_take_def match_info_def select_profile_def column_def
        or_default_def touch_def py_int_def round1_def round_half_even_def)

section \<open>The score a request carries\<close>

lemma score_all_member:
  assumes "score_all advocates cp = Inr recs" and "r \<in> set recs"
  shows "\<exists>p u scored. (p, u) \<in> set advocates \<and> calculate_match_score p cp = Inr scored
           \<and> 0 < fst scored \<and> r = recommendation_of p u scored"
  using assms
proof (induction advocates arbitrary: recs)
  case Nil
  then show ?case by simp
next
  case (Cons a advocates)
  obtain p u where a: "a = (p, u)" by (cases a)
  from Cons.prems(1) a obtain scored rest where
      scored: "calculate_match_score p cp = Inr scored"
    and rest: "score_all advocates cp = Inr rest"
    and recs: "recs = (if fst scored > 0 then recommendation_of p u scored # rest else rest)"
    by (cases "calculate_match_score p cp"; cases "score_all advocates cp") auto
  show ?case
  proof (cases "r \<in> set rest")
    case True
    from Cons.IH [OF rest True] obtain p' u' scored' where
        "(p', u') \<in> set advocates" "calculate_match_score p' cp = Inr scored'"
        "0 < fst scored'" "r = recommendation_of p' u' scored'"
      by blast
    then show ?thesis
      by (intro exI [of _ p'] exI [of _ u'] exI [of _ scored']) simp
  next
    case False
    with recs Cons.prems(2) have "fst scored > 0" and "r = recommendation_of p u scored"
      by (auto split: if_splits)
    with scored a show ?thesis
      by (intro exI [of _ p] exI [of _ u] exI [of _ scored]) simp
  qed
qed

lemma py_take_subset: "set (py_take limit xs) \<subseteq> set xs"
  by (auto simp: py_take_def dest: in_set_takeD)

lemma get_recommendations_member:
  assumes "get_recommendations s cp limit = Inr recs" and "r \<in> set recs"
  shows "\<exists>p u scored. (p, u) \<in> set (available_advocates s)
           \<and> calculate_match_score p cp = Inr scored
           \<and> 0 < fst scored \<and> r = recommendation_of p u scored"
proof -
  from assms(1) obtain scored_all where
      all: "score_all (available_advocates s) cp = Inr scored_all"
    and recs: "recs = py_take limit (sort_by_score scored_all)"
    by (cases "score_all (available_advocates s) cp")
       (simp_all add: get_recommendations_def ranking_def)
  from recs assms(2) py_take_subset [of limit "sort_by_score scored_all"]
  have "r \<in> set (sort_by_score scored_all)" by auto
  then have "r \<in> set scored_all" by (simp add: sort_by_score_def)
  with all show ?thesis by (rule score_all_member)
qed

text \<open>A successful \<^verbatim>\<open>select_advocate\<close>, step by step.\<close>

lemma select_success_steps:
  assumes ok: "fst (select_advocate case_id advocate_id current_user new_id now s) = Inr resp"
  obtains c advocate_data recs where
    "scalar_one_or_none
       (filter (\<lambda>c. c_id c = case_id \<and> c_client_id c = u_id current_user) (cases s))
     = Inr (Some c)"
    and "c_status c \<noteq> ADVOCATE_ASSIGNED"
    and "scalar_one_or_none
       (filter (\<lambda>r. r_case_id r = case_id \<and> r_status r = PENDING) (case_requests s))
     = Inr None"
    and "get_advocate_by_id s advocate_id = Some advocate_data"
    and "get_recommendations s (select_profile c) 20 = Inr recs"
    and "new_id \<notin> set (map r_id (case_requests s))"
proof -
  let ?q1 = "scalar_one_or_none
       (filter (\<lambda>c. c_id c = case_id \<and> c_client_id c = u_id current_user) (cases s))"
  let ?q2 = "scalar_one_or_none
       (filter (\<lambda>r. r_case_id r = case_id \<and> r_status r = PENDING) (case_requests s))"
  have "\<exists>c. ?q1 = Inr (Some c)"
  proof (cases ?q1)
    case (Inl e)
    with ok show ?thesis by (simp add: select_advocate_def)
  next
    case (Inr found)
    with ok show ?thesis by (cases found) (simp_all add: select_advocate_def)
  qed
  then obtain c where c: "?q1 = Inr (Some c)" ..
  have open_case: "c_status c \<noteq> ADVOCATE_ASSIGNED"
    using ok c by (auto simp: select_advocate_def)
  have none: "?q2 = Inr None"
  proof (cases ?q2)
    case (Inl e)
    with ok c open_case show ?thesis by (simp add: select_advocate_def)
  next
    case (Inr found)
    with ok c open_case show ?thesis by (cases found) (simp_all add: select_advocate_def)
  qed
  have "\<exists>a. get_advocate_by_id s advocate_id = Some a"
    using ok c open_case none
    by (cases "get_advocate_by_id s advocate_id") (simp_all add: select_advocate_def)
  then obtain advocate_data where adv: "get_advocate_by_id s advocate_id = Some advocate_data" ..
  have "\<exists>recs. get_recommendations s (select_profile c) 20 = Inr recs"
    using ok c open_case none adv
    by (cases "get_recommendations s (select_profile c) 20") (simp_all add: select_advocate_def)
  then obtain recs where recs: "get_recommendations s (select_profile c) 20 = Inr recs" ..
  have fresh: "new_id \<notin> set (map r_id (case_requests s))"
  proof
    assume "new_id \<in> set (map r_id (case_requests s))"
    with ok c open_case none adv recs show False by (simp add: select_advocate_def)
  qed
  from c open_case none adv recs fresh show ?thesis by (rule that)
qed

text \<open>
  What a successful \<^verbatim>\<open>select_advocate\<close> stores: the request it appends carries
  the score (rounded to a tenth, then truncated) and the reasons of the selected
  advocate's entry among the first 20 recommendations for the six profile columns of the
  case, an entry the scorer computed for this advocate; when these recommendations hold
  no entry for the advocate, the request carries the score 50 and the reason
  "Selected by client".
\<close>

lemma select_stores_ranking_entry:
  assumes "fst (select_advocate case_id advocate_id current_user new_id now s) = Inr resp"
  shows "\<exists>c recs new.
           filter (\<lambda>c. c_id c = case_id \<and> c_client_id c = u_id current_user) (cases s) = [c]
         \<and> get_recommendations s (select_profile c) 20 = Inr recs
         \<and> case_requests (snd (select_advocate case_id advocate_id current_user new_id now s))
             = case_requests s @ [new]
         \<and> r_advocate_id new = advocate_id \<and> r_status new = PENDING
         \<and> (case find (\<lambda>r. rec_advocate_id r = advocate_id) recs of
               None \<Rightarrow> r_match_score new = Some 50 \<and> r_match_explanation new = [SelectedByClient]
             | Some entry \<Rightarrow>
                 (\<exists>p u score reasons.
                    (p, u) \<in> set (available_advocates s) \<and> u_id u = advocate_id
                  \<and> calculate_match_score p (select_profile c) = Inr (score, reasons)
                  \<and> 0 < score
                  \<and> r_match_score new = Some (py_int (round1 score))
                  \<and> r_match_explanation new = reasons))"
proof -
  from assms obtain c advocate_data recs where
      c: "scalar_one_or_none
            (filter (\<lambda>c. c_id c = case_id \<and> c_client_id c = u_id current_user) (cases s))
          = Inr (Some c)"
    and open_case: "c_status c \<noteq> ADVOCATE_ASSIGNED"
    and none: "scalar_one_or_none
       (filter (\<lambda>r. r_case_id r = case_id \<and> r_status r = PENDING) (case_requests s))
     = Inr None"
    and adv: "get_advocate_by_id s advocate_id = Some advocate_data"
    and recs: "get_recommendations s (select_profile c) 20 = Inr recs"
    and fresh: "new_id \<notin> set (map r_id (case_requests s))"
    by (rule select_success_steps)
  define new where "new =
     \<lparr>r_id = new_id, r_case_id = case_id, r_advocate_id = advocate_id,
      r_client_id = u_id current_user,
      r_match_score = Some (py_int (fst (match_info recs advocate_id))),
      r_match_explanation = snd (match_info recs advocate_id),
      r_status = PENDING, r_response_at = None, r_rejection_reason = None\<rparr>"
  have appended:
    "case_requests (snd (select_advocate case_id advocate_id current_user new_id now s))
       = case_requests s @ [new]"
    using fresh by (simp add: select_advocate_def c open_case none adv recs new_def Let_def)
  have stored: "case find (\<lambda>r. rec_advocate_id r = advocate_id) recs of
               None \<Rightarrow> r_match_score new = Some 50 \<and> r_match_explanation new = [SelectedByClient]
             | Some entry \<Rightarrow>
                 (\<exists>p u score reasons.
                    (p, u) \<in> set (available_advocates s) \<and> u_id u = advocate_id
                  \<and> calculate_match_score p (select_profile c) = Inr (score, reasons)
                  \<and> 0 < score
                  \<and> r_match_score new = Some (py_int (round1 score))
                  \<and> r_match_explanation new = reasons)"
  proof (cases "find (\<lambda>r. rec_advocate_id r = advocate_id) recs")
    case None
    then show ?thesis by (simp add: new_def match_info_def py_int_def)
  next
    case (Some entry)
    then have "entry \<in> set recs" and adv_id: "rec_advocate_id entry = advocate_id"
      by (auto simp: find_Some_iff)
    with get_recommendations_member [OF recs] obtain p u scored where
        pu: "(p, u) \<in> set (available_advocates s)"
      and sc: "calculate_match_score p (select_profile c) = Inr scored"
      and pos: "0 < fst scored"
      and entry: "entry = recommendation_of p u scored"
      by blast
    from adv_id entry have uid: "u_id u = advocate_id" by (simp add: recommendation_of_def)
    from Some entry have score: "r_match_score new = Some (py_int (round1 (fst scored)))"
      and reasons: "r_match_explanation new = snd scored"
      by (simp_all add: new_def match_info_def recommendation_of_def)
    have "\<exists>p u score reasons.
                    (p, u) \<in> set (available_advocates s) \<and> u_id u = advocate_id
                  \<and> calculate_match_score p (select_profile c) = Inr (score, reasons)
                  \<and> 0 < score
                  \<and> r_match_score new = Some (py_int (round1 score))
                  \<and> r_match_explanation new = reasons"
      using pu sc pos uid score reasons
      by (intro exI [of _ p] exI [of _ u] exI [of _ "fst scored"] exI [of _ "snd scored"]) simp
    with Some show ?thesis by simp
  qed
  from c have only: "filter (\<lambda>c. c_id c = case_id \<and> c_client_id c = u_id current_user) (cases s) = [c]"
    by (rule scalar_some_single)
  have "r_advocate_id new = advocate_id \<and> r_status new = PENDING"
    by (simp add: new_def)
  with only recs appended stored show ?thesis
    by (intro exI [of _ c] exI [of _ recs] exI [of _ new]) simp
qed

text \<open>In the small database the advocate is in the ranking, and the request carries the score.\<close>

lemma select_stores_ranking_entry_demo:
  "map (\<lambda>r. (r_match_score r, r_match_explanation r))
       (case_requests (snd (select_advocate 100 1 client_user 300 5 demo_db)))
     = [(Some 70, [SpecializesIn ''civil'', PracticesIn ''Delhi'', FamiliarWith ''South Delhi'',
                   YearsOfPractice 19, ModerateAvailability, FeeCompatible ''premium'',
                   HighlyRated (24 / 5) None])]
   \<and> calculate_match_score (scenario_advocate (Some [''South Delhi''])) (select_profile demo_case)
     = Inr (70, [SpecializesIn ''civil'', PracticesIn ''Delhi'', FamiliarWith ''South Delhi'',
                 YearsOfPractice 19, ModerateAvailability, FeeCompatible ''premium'',
                 HighlyRated (24 / 5) None])"
proof -
  have ok: "fst (select_advocate 100 1 client_user 300 5 demo_db)
      = Inr (SelectResponse 300 ''Adv. Rajesh Kumar Sharma'')"
    by (simp only: demo_select fst_conv)
  note select_stores_ranking_entry [OF ok]
  then have "\<exists>new. case_requests demo_pending = case_requests demo_db @ [new]"
    by (simp only: demo_select snd_conv) blast
  moreover have "case_requests (snd (select_advocate 100 1 client_user 300 5 demo_db))
      = [demo_request]"
    by (simp only: demo_select snd_conv) (simp add: demo_defs)
  moreover have "calculate_match_score (scenario_advocate (Some [''South Delhi'']))
      (select_profile demo_case)
     = Inr (70, [SpecializesIn ''civil'', PracticesIn ''Delhi'', FamiliarWith ''South Delhi'',
                 YearsOfPractice 19, ModerateAvailability, FeeCompatible ''premium'',
                 HighlyRated (24 / 5) None])"
    by (simp add: select_profile_def column_def or_default_def demo_defs scenario_defs
          backend_defs clause_defs python_defs)
  ultimately show ?thesis by (simp add: demo_request_def)
qed

text \<open>
  C4. The endpoint announces "Calculate match score for this specific advocate"
  (\<^verbatim>\<open>client.py\<close>, line 571) and then looks the advocate up among the first 20
  recommendations, with a default. On two inputs the request does not carry the score
  the Matching Engine computes for the selected advocate:
  \<^item> the client selects an advocate who accepts no new cases: the scorer gives this
    advocate 0 and the reason "Currently not accepting new cases", the request is
    created with 50 and "Selected by client";
  \<^item> the client selects the twenty-first of twenty-one eligible advocates: the scorer
    gives this advocate 68 with seven reasons, the request is created with 50 and
    "Selected by client".
\<close>

theorem select_stores_default_score:
  "fst (select_advocate 100 1 client_user 300 5 demo_unavailable_db)
     = Inr (SelectResponse 300 ''Adv. Rajesh Kumar Sharma'')
   \<and> map (\<lambda>r. (r_match_score r, r_match_explanation r))
         (case_requests (snd (select_advocate 100 1 client_user 300 5 demo_unavailable_db)))
     = [(Some 50, [SelectedByClient])]
   \<and> calculate_match_score
         ((scenario_advocate (Some [''South Delhi'']))\<lparr>ap_is_available := Some False\<rparr>)
         (select_profile demo_case)
     = Inr (0, [NotAccepting])
   \<and> fst (select_advocate 100 21 client_user 300 5 crowded_db)
     = Inr (SelectResponse 300 ''Advocate'')
   \<and> map (\<lambda>r. (r_match_score r, r_match_explanation r))
         (case_requests (snd (select_advocate 100 21 client_user 300 5 crowded_db)))
     = [(Some 50, [SelectedByClient])]
   \<and> calculate_match_score (rated_advocate 21 4) (select_profile demo_case)
     = Inr (68, [SpecializesIn ''civil'', PracticesIn ''Delhi'', FamiliarWith ''South Delhi'',
                 YearsOfPractice 19, ModerateAvailability, FeeCompatible ''premium'',
                 WellRated 4])"
  by (simp add: select_advocate_def demo_unavailable_db_def crowded_db_def rated_advocate_def
        demo_defs scenario_defs backend_defs
        clause_defs python_defs scalar_one_or_none_def get_advocate_by_id_def joined_def
        first_row_def get_recommendations_def ranking_def available_advocates_def
        recommendation_of_def sort_by_score_def py_take_def match_info_def select_profile_def
        column_def or_default_def touch_def py_int_def round1_def round_half_even_def)

section \<open>The ranking\<close>









section \<open>Ingesting a profile twice\<close>

lemmas ingest_defs =
  ingest_case_profile_def scalar_one_or_none_def new_case_def update_case_profile_def
  profile_items_def dict_get_def case_columns_def case_relationships_def store_column_def
  string_column_def enum_column_def case_status_of_def keys_hold_def touch_def fresh_db_def
  urgent_profile_def closing_profile_def demo_conversation_def client_user_def

text \<open>
  C9. The assistant extracts the same fields, with the urgency, in two turns of a
  conversation that has no case yet. The first ingest creates the case from seven keys
  and leaves the urgency \<^verbatim>\<open>None\<close>; the second finds the case and writes the urgency,
  as the update of an existing case does for every column: the case after two ingests is
  not the case after one. (A third ingest changes nothing more.)
\<close>

theorem ingest_twice_differs:
  "fst (ingest_case_profile 200 (Some urgent_profile) client_user 100 1 fresh_db) = Inr True
   \<and> map c_urgency
     (cases (snd (ingest_case_profile 200 (Some urgent_profile) client_user 100 1 fresh_db)))
     = [None]
   \<and> fst (ingest_case_profile 200 (Some urgent_profile) client_user 101 2
            (snd (ingest_case_profile 200 (Some urgent_profile) client_user 100 1 fresh_db)))
     = Inr True
   \<and> map c_urgency
     (cases (snd (ingest_case_profile 200 (Some urgent_profile) client_user 101 2
                   (snd (ingest_case_profile 200 (Some urgent_profile) client_user 100 1 fresh_db)))))
     = [Some ''urgent'']
   \<and> cases (snd (ingest_case_profile 200 (Some urgent_profile) client_user 101 2
                   (snd (ingest_case_profile 200 (Some urgent_profile) client_user 100 1 fresh_db))))
     \<noteq> cases (snd (ingest_case_profile 200 (Some urgent_profile) client_user 100 1 fresh_db))
   \<and> cases (snd (ingest_case_profile 200 (Some urgent_profile) client_user 102 3
                   (snd (ingest_case_profile 200 (Some urgent_profile) client_user 101 2
                     (snd (ingest_case_profile 200 (Some urgent_profile) client_user 100 1
                             fresh_db))))))
     = cases (snd (ingest_case_profile 200 (Some urgent_profile) client_user 101 2
                   (snd (ingest_case_profile 200 (Some urgent_profile) client_user 100 1 fresh_db))))"
  by (simp add: ingest_defs)

text \<open>
  The update writes every truthy key that names a column of the case, not the profile
  columns only: a profile with the key \<^verbatim>\<open>status\<close> creates the case with the status
  \<open>AI_CONVERSATION\<close>, and closes it when it is ingested again.
\<close>

lemma ingest_rewrites_status:
  "map c_status
     (cases (snd (ingest_case_profile 200 (Some closing_profile) client_user 100 1 fresh_db)))
     = [AI_CONVERSATION]
   \<and> map c_status
     (cases (snd (ingest_case_profile 200 (Some closing_profile) client_user 101 2
                   (snd (ingest_case_profile 200 (Some closing_profile) client_user 100 1 fresh_db)))))
     = [CLOSED]"
  by (simp add: ingest_defs)

section \<open>The two scorers compared\<close>













text \<open>
  For a high-court case the two scorers differ on the same two records: the bot awards
  the landmark bonus for its 12 judgments, the backend finds no comma in the text of
  the row and awards none.
\<close>

lemma scorers_differ_on_landmark_cases:
  "calculate_advocate_match_score registry_adv001
     (scenario_keyed\<lparr>cp_court_level := Val ''high_court''\<rparr>)
   = Inr (89, [SpecializesIn ''civil'', PracticesIn ''Delhi'', FamiliarWith ''South Delhi'',
               HomeCourtIs ''Delhi High Court'', YearsOfPractice 19, ReportedJudgments 12,
               ModerateAvailability, FeeMatches ''premium'', Speaks {''Hindi'', ''English''},
               HighlyRated (24 / 5) (Some 156)])
   \<and> calculate_match_score seed_adv001
       (scenario_keyed\<lparr>cp_court_level := Val ''high_court''\<rparr>)
   = Inr (86, [SpecializesIn ''civil'', PracticesIn ''Delhi'', FamiliarWith ''South Delhi'',
               HomeCourtIs ''Delhi High Court'', YearsOfPractice 19,
               ModerateAvailability, FeeMatches ''premium'', Speaks {''Hindi'', ''English''},
               HighlyRated (24 / 5) (Some 156)])"
  by (simp add: scenario_keyed_def scenario_defs registry_adv001_def seed_adv001_def bot_defs
        backend_defs clause_defs python_defs lower_def lower_char_def)


end
